theory Spec2Isabelle
  imports Main
begin

chapter \<open>Handlers of the catalog backend\<close>

text \<open>
  A shallow embedding of the request handlers of the catalog backend (categories, items,
  admin login) over an in-memory document store, and the properties of the counter
  maintainer, the delete check, the slug allocation, the list pagination and the
  authentication failures.

  The repository holds two variants of most sources, a typed one (\<open>.ts\<close>) and a relaxed
  one (\<open>.js\<close>); where their handlers differ both are modelled, with the suffixes \<open>_ts\<close>
  and \<open>_js\<close>, and where only the model underneath differs the handler takes the variant
  as an argument. A handler is a function from the request and the store to the response
  and the new store. Store calls do what the data dictates (a lookup that finds nothing,
  a validator or a unique index that rejects); only the count and the write of the
  item counter, inside the counter maintainer and inside the post hooks of the relaxed
  item model, can in addition fail for reasons outside the data.
\<close>

section \<open>Strings as the handlers use them\<close>

text \<open>
  The handlers are JavaScript; a string is modelled as a list of code units below 256
  (ASCII and Latin-1), which is what \<^typ>\<open>char\<close> holds. On that range the
  class \<open>\s\<close> of a regular expression, and the white space \<open>trim\<close> removes, is
  tab, line feed, vertical tab, form feed, carriage return, space and no-break space;
  \<open>toLowerCase\<close> moves \<open>A-Z\<close> and the accented capitals by 32.
\<close>

definition is_space :: "char \<Rightarrow> bool" where
  "is_space c \<longleftrightarrow> (let n = (of_char c :: nat) in (9 \<le> n \<and> n \<le> 13) \<or> n = 32 \<or> n = 160)"

definition is_upper :: "char \<Rightarrow> bool" where
  "is_upper c \<longleftrightarrow>
     (let n = (of_char c :: nat) in (65 \<le> n \<and> n \<le> 90) \<or> (192 \<le> n \<and> n \<le> 222 \<and> n \<noteq> 215))"

definition is_digit :: "char \<Rightarrow> bool" where
  "is_digit c \<longleftrightarrow> (let n = (of_char c :: nat) in 48 \<le> n \<and> n \<le> 57)"

text \<open>The character class \<open>[a-z0-9-]\<close>.\<close>

definition is_slug_char :: "char \<Rightarrow> bool" where
  "is_slug_char c \<longleftrightarrow>
     (let n = (of_char c :: nat) in (97 \<le> n \<and> n \<le> 122) \<or> (48 \<le> n \<and> n \<le> 57) \<or> n = 45)"

definition is_hyphen :: "char \<Rightarrow> bool" where
  "is_hyphen c \<longleftrightarrow> c = CHR ''-''"

definition toLowerCase :: "string \<Rightarrow> string" where
  "toLowerCase s = map (\<lambda>c. if is_upper c then char_of (of_char c + (32::nat)) else c) s"

definition trim :: "string \<Rightarrow> string" where
  "trim s = rev (dropWhile is_space (rev (dropWhile is_space s)))"

text \<open>
  \<open>s.replace(/P+/g, r)\<close>: every maximal run of characters of the class \<open>P\<close> becomes
  one copy of \<open>r\<close>.
\<close>

function replace_runs :: "(char \<Rightarrow> bool) \<Rightarrow> string \<Rightarrow> string \<Rightarrow> string" where
  "replace_runs P r [] = []"
| "replace_runs P r (c # cs) =
     (if P c then r @ replace_runs P r (dropWhile P cs) else c # replace_runs P r cs)"
  by pat_completeness auto
termination
  by (relation "measure (\<lambda>(P, r, s). length s)") (auto simp: le_imp_less_Suc length_dropWhile_le)

text \<open>\<open>s.replace(/^-|-$/g, "")\<close>: one hyphen off the front, one off the end.\<close>

definition strip_edge_hyphens :: "string \<Rightarrow> string" where
  "strip_edge_hyphens s =
     (let s1 = (case s of [] \<Rightarrow> [] | c # cs \<Rightarrow> if is_hyphen c then cs else s)
      in if s1 \<noteq> [] \<and> is_hyphen (last s1) then butlast s1 else s1)"

text \<open>
  The chain the create and update handlers apply to a name or title that comes without a
  slug: \<open>toLowerCase().trim()\<close>, then the four \<open>replace\<close> calls in their order.
\<close>

definition slugify :: "string \<Rightarrow> string" where
  "slugify name =
     strip_edge_hyphens
       (replace_runs is_hyphen ''-''
         (replace_runs is_space ''-''
           (filter (\<lambda>c. is_slug_char c \<or> is_space c) (trim (toLowerCase name)))))"

text \<open>A string of \<open>[a-z0-9-]+\<close> with no hyphen at either end and no two in a row.\<close>

fun has_repeated_hyphen :: "string \<Rightarrow> bool" where
  "has_repeated_hyphen (a # b # cs) \<longleftrightarrow> (is_hyphen a \<and> is_hyphen b) \<or> has_repeated_hyphen (b # cs)"
| "has_repeated_hyphen _ \<longleftrightarrow> False"

definition clean_slug :: "string \<Rightarrow> bool" where
  "clean_slug s \<longleftrightarrow>
     s \<noteq> [] \<and> list_all is_slug_char s \<and> \<not> is_hyphen (hd s) \<and> \<not> is_hyphen (last s)
       \<and> \<not> has_repeated_hyphen s"

text \<open>A number inside a template literal: its decimal digits.\<close>

definition digit_char :: "nat \<Rightarrow> char" where
  "digit_char d = char_of (48 + d)"

fun show_nat :: "nat \<Rightarrow> string" where
  "show_nat n = (if n < 10 then [digit_char n] else show_nat (n div 10) @ [digit_char (n mod 10)])"

declare show_nat.simps [simp del]

text \<open>
  The schemas declare \<open>slug\<close> with \<open>trim: true, lowercase: true\<close>: the value is trimmed
  and lower-cased when a document is built and when a filter on \<open>slug\<close> is cast.
\<close>

definition normalise_slug :: "string \<Rightarrow> string" where
  "normalise_slug s = toLowerCase (trim s)"

text \<open>\<open>s.replace(pat, rep)\<close> with a string pattern: the first occurrence only.\<close>

fun replace_first :: "string \<Rightarrow> string \<Rightarrow> string \<Rightarrow> string" where
  "replace_first pat rep [] = (if pat = [] then rep else [])"
| "replace_first pat rep (c # cs) =
     (if take (length pat) (c # cs) = pat then rep @ drop (length pat) (c # cs)
      else c # replace_first pat rep cs)"

text \<open>A value of a request that may be missing; the empty string is falsy as well.\<close>

definition truthy :: "string option \<Rightarrow> bool" where
  "truthy s \<longleftrightarrow> (case s of None \<Rightarrow> False | Some x \<Rightarrow> x \<noteq> [])"

subsection \<open>The uniqueness loop ends\<close>

text \<open>
  The loop of the create handlers probes \<open>base\<close>, \<open>base-1\<close>, \<open>base-2\<close>, ... until the
  store holds no document with the probed slug. It ends because the numbered slugs are
  pairwise different and the store is finite; the facts below are what the termination
  proof needs.
\<close>

lemma digit_char_inj: "a < 10 \<Longrightarrow> b < 10 \<Longrightarrow> digit_char a = digit_char b \<Longrightarrow> a = b"
proof -
  assume a: "a < 10" and b: "b < 10" and e: "digit_char a = digit_char b"
  from e have "(of_char (digit_char a) :: nat) = of_char (digit_char b)" by simp
  with a b show "a = b" by (simp add: digit_char_def)
qed

lemma digit_char_is_digit: "d < 10 \<Longrightarrow> is_digit (digit_char d)"
  by (simp add: is_digit_def digit_char_def)

lemma show_nat_digits: "list_all is_digit (show_nat n)"
proof (induction n rule: show_nat.induct)
  case (1 n)
  show ?case
  proof (cases "n < 10")
    case True
    then show ?thesis by (simp add: show_nat.simps [of n] digit_char_is_digit)
  next
    case False
    with 1 show ?thesis by (simp add: show_nat.simps [of n] digit_char_is_digit)
  qed
qed

lemma show_nat_nonempty: "show_nat n \<noteq> []"
  by (subst show_nat.simps) simp

lemma show_nat_inj: "show_nat m = show_nat n \<Longrightarrow> m = n"
proof (induction m arbitrary: n rule: show_nat.induct)
  case (1 m)
  show ?case
  proof (cases "m < 10")
    case True
    then have one: "show_nat n = [digit_char m]"
      using "1.prems" by (simp add: show_nat.simps [of m])
    have "n < 10"
    proof (rule ccontr)
      assume "\<not> n < 10"
      then have "show_nat n = show_nat (n div 10) @ [digit_char (n mod 10)]"
        by (simp add: show_nat.simps [of n])
      with one show_nat_nonempty [of "n div 10"] show False by simp
    qed
    with one True show ?thesis
      by (auto simp: show_nat.simps [of n] dest: digit_char_inj)
  next
    case False
    then have m: "show_nat m = show_nat (m div 10) @ [digit_char (m mod 10)]"
      by (simp add: show_nat.simps [of m])
    have "\<not> n < 10"
    proof
      assume "n < 10"
      then have "show_nat n = [digit_char n]" by (simp add: show_nat.simps [of n])
      with m "1.prems" show_nat_nonempty [of "m div 10"] show False by simp
    qed
    then have n: "show_nat n = show_nat (n div 10) @ [digit_char (n mod 10)]"
      by (simp add: show_nat.simps [of n])
    from m n "1.prems" have a: "show_nat (m div 10) = show_nat (n div 10)"
      and b: "digit_char (m mod 10) = digit_char (n mod 10)" by simp_all
    from "1.IH" [OF False a] have "m div 10 = n div 10" .
    moreover have "m mod 10 = n mod 10"
      by (rule digit_char_inj [OF _ _ b]) simp_all
    ultimately show ?thesis by (metis div_mult_mod_eq)
  qed
qed

lemma digit_not_space: "is_digit c \<Longrightarrow> \<not> is_space c"
  by (auto simp: is_digit_def is_space_def Let_def)

lemma digit_not_upper: "is_digit c \<Longrightarrow> \<not> is_upper c"
  by (auto simp: is_digit_def is_upper_def Let_def)

lemma hyphen_not_space: "\<not> is_space CHR ''-''"
  by (simp add: is_space_def)

lemma hyphen_not_upper: "\<not> is_upper CHR ''-''"
  by (simp add: is_upper_def)

lemma toLowerCase_append: "toLowerCase (xs @ ys) = toLowerCase xs @ toLowerCase ys"
  by (simp add: toLowerCase_def)

lemma toLowerCase_digits: "list_all is_digit ds \<Longrightarrow> toLowerCase ds = ds"
  unfolding toLowerCase_def
  by (rule map_idI) (simp add: list_all_iff digit_not_upper)

lemma show_nat_snoc: "show_nat n = butlast (show_nat n) @ [digit_char (n mod 10)]"
  by (subst (1 2) show_nat.simps) simp

lemma trim_numbered:
  "trim (base @ CHR ''-'' # show_nat k) = dropWhile is_space base @ CHR ''-'' # show_nat k"
proof -
  define ds where "ds = butlast (show_nat k)"
  define l where "l = digit_char (k mod 10)"
  have d: "show_nat k = ds @ [l]"
    unfolding ds_def l_def by (rule show_nat_snoc)
  have "is_digit l"
    unfolding l_def by (rule digit_char_is_digit) simp
  then have l: "\<not> is_space l" by (rule digit_not_space)
  have "dropWhile is_space (base @ CHR ''-'' # show_nat k)
          = dropWhile is_space base @ CHR ''-'' # show_nat k"
    by (rule dropWhile_append3) (rule hyphen_not_space)
  then show ?thesis
    using l by (simp add: trim_def d)
qed

lemma normalise_numbered:
  "normalise_slug (base @ CHR ''-'' # show_nat k)
     = toLowerCase (dropWhile is_space base) @ CHR ''-'' # show_nat k"
proof -
  have "toLowerCase (CHR ''-'' # show_nat k) = CHR ''-'' # toLowerCase (show_nat k)"
    by (simp add: toLowerCase_def hyphen_not_upper)
  then show ?thesis
    by (simp add: normalise_slug_def trim_numbered toLowerCase_append
        toLowerCase_digits [OF show_nat_digits])
qed

lemma finite_numbered_taken:
  "finite {k. normalise_slug (base @ CHR ''-'' # show_nat k) \<in> set taken}"
proof -
  have "inj (\<lambda>k. normalise_slug (base @ CHR ''-'' # show_nat k))"
    by (rule injI) (auto simp: normalise_numbered dest: show_nat_inj)
  then have "finite ((\<lambda>k. normalise_slug (base @ CHR ''-'' # show_nat k)) -` set taken)"
    by (rule finite_vimageI [OF finite_set])
  then show ?thesis by (simp add: vimage_def)
qed

text \<open>
  \<^verbatim>\<open>let uniqueSlug = base; let counter = 1;
  while (await Model.findOne({ slug: uniqueSlug })) {
     uniqueSlug = `${base}-${counter}`; counter++; }\<close>
  with \<open>taken\<close> the slugs of the documents of the collection.
\<close>

function slug_loop :: "string list \<Rightarrow> string \<Rightarrow> string \<Rightarrow> nat \<Rightarrow> string" where
  "slug_loop taken base uniqueSlug counter =
     (if normalise_slug uniqueSlug \<in> set taken
      then slug_loop taken base (base @ ''-'' @ show_nat counter) (counter + 1)
      else uniqueSlug)"
  by pat_completeness auto
termination
proof (relation "measures
    [\<lambda>(taken, base, uniqueSlug, counter).
        card {k. counter \<le> k \<and> normalise_slug (base @ ''-'' @ show_nat k) \<in> set taken},
     \<lambda>(taken, base, uniqueSlug, counter).
        if normalise_slug uniqueSlug \<in> set taken then 1 else 0]")
  show "wf (measures
    [\<lambda>(taken, base, uniqueSlug, counter).
        card {k. counter \<le> k \<and> normalise_slug (base @ ''-'' @ show_nat k) \<in> set taken},
     \<lambda>(taken, base, uniqueSlug, counter).
        if normalise_slug uniqueSlug \<in> set taken then 1 else (0::nat)])"
    by simp
next
  fix taken :: "string list" and base uniqueSlug :: string and counter :: nat
  assume hit: "normalise_slug uniqueSlug \<in> set taken"
  let ?A = "\<lambda>c. {k. c \<le> k \<and> normalise_slug (base @ ''-'' @ show_nat k) \<in> set taken}"
  have fin: "finite (?A counter)"
    using finite_numbered_taken [of base taken] by simp
  show "((taken, base, base @ ''-'' @ show_nat counter, counter + 1),
         (taken, base, uniqueSlug, counter)) \<in> measures
    [\<lambda>(taken, base, uniqueSlug, counter).
        card {k. counter \<le> k \<and> normalise_slug (base @ ''-'' @ show_nat k) \<in> set taken},
     \<lambda>(taken, base, uniqueSlug, counter).
        if normalise_slug uniqueSlug \<in> set taken then 1 else 0]"
  proof (cases "normalise_slug (base @ ''-'' @ show_nat counter) \<in> set taken")
    case True
    then have "counter \<in> ?A counter" by simp
    moreover have "counter \<notin> ?A (counter + 1)" by simp
    moreover have "?A (counter + 1) \<subseteq> ?A counter" by auto
    ultimately have "?A (counter + 1) \<subset> ?A counter" by blast
    then have "card (?A (counter + 1)) < card (?A counter)"
      by (rule psubset_card_mono [OF fin])
    then show ?thesis by simp
  next
    case False
    have "?A (counter + 1) = ?A counter"
    proof (rule set_eqI)
      fix k
      show "k \<in> ?A (counter + 1) \<longleftrightarrow> k \<in> ?A counter"
        using False by (cases "k = counter") auto
    qed
    then have "card (?A (counter + 1)) = card (?A counter)" by (rule arg_cong)
    with False hit show ?thesis by simp
  qed
qed

declare slug_loop.simps [simp del]

section \<open>Documents, the store and responses\<close>

text \<open>
  The two collections and the admin records, with the fields the handlers read or the
  schemas check. An identifier is a number; a status is one of the values the schema's
  \<open>enum\<close> admits. The store is the list of documents of each collection, in insertion
  order, the lines written by \<open>logger.error\<close>, and the next fresh identifier.
\<close>

type_synonym oid = nat

datatype item_status = Active | Inactive | Draft

datatype category_status = CategoryActive | CategoryInactive

record category =
  cat_id :: oid
  cat_name :: string
  cat_slug :: string
  cat_description :: string
  cat_icon :: "string option"
  cat_gradient :: "string option"
  cat_status :: category_status
  cat_sortOrder :: int
  itemCount :: nat

record character =
  ch_name :: "string option"
  ch_image :: "string option"
  ch_description :: "string option"

record item =
  item_id :: oid
  item_title :: "string option"
  item_description :: "string option"
  item_slug :: "string option"
  item_category :: oid
  item_status :: item_status
  item_featured :: "bool option"
  item_characters :: "character list"
  item_createdBy :: "oid option"

datatype role = Admin | SuperAdmin

record admin =
  admin_id :: oid
  admin_username :: string
  admin_email :: string
  admin_password :: string
  admin_role :: role
  admin_isActive :: bool
  admin_lastLogin :: "nat option"

record world =
  categories :: "category list"
  items :: "item list"
  admins :: "admin list"
  error_log :: "string list"
  next_id :: oid

text \<open>
  The two source variants: the typed one (the \<open>.ts\<close> controllers with the \<open>.ts\<close>
  models) and the relaxed one (the \<open>.js\<close> controllers with the \<open>.js\<close> models, whose
  item schema requires the category only and carries post hooks).
\<close>

datatype variant = Typed | Relaxed

text \<open>What a rejected store call throws.\<close>

datatype exn = ValidationError | DuplicateKeyError | StoreError

text \<open>Responses: the status code and the JSON body \<open>{success, message, data}\<close>.\<close>

record pagination =
  pg_current :: nat
  pg_pages :: "nat option"
  pg_total :: nat
  pg_limit :: nat
  hasNext :: bool
  hasPrev :: bool

type_synonym category_ref = "oid \<times> string \<times> string"

record item_view =
  view_item :: item
  view_category :: "category_ref option"
  view_createdBy :: "string option"

record admin_summary =
  sum_id :: oid
  sum_username :: string
  sum_email :: string
  sum_role :: role
  sum_lastLogin :: "nat option"

datatype payload =
    NoData
  | CategoryData category
  | CategoryPage "category list" pagination
  | ItemData item_view
  | ItemPage "item_view list" pagination
  | LoginData admin_summary string

record response =
  res_status :: nat
  res_success :: bool
  res_message :: "string option"
  res_data :: payload
  res_cookie :: "string option"

definition json :: "nat \<Rightarrow> bool \<Rightarrow> string \<Rightarrow> payload \<Rightarrow> response" where
  "json code ok msg d =
     \<lparr>res_status = code, res_success = ok, res_message = Some msg, res_data = d,
      res_cookie = None\<rparr>"

definition logged :: "string \<Rightarrow> world \<Rightarrow> world" where
  "logged line w = w\<lparr>error_log := error_log w @ [line]\<rparr>"

text \<open>The catch block every handler ends with.\<close>

definition internal_error :: "string \<Rightarrow> world \<Rightarrow> response \<times> world" where
  "internal_error line w = (json 500 False ''Internal server error'' NoData, logged line w)"

subsection \<open>Store calls\<close>

fun update_first :: "('a \<Rightarrow> bool) \<Rightarrow> ('a \<Rightarrow> 'a) \<Rightarrow> 'a list \<Rightarrow> 'a list" where
  "update_first P f [] = []"
| "update_first P f (x # xs) = (if P x then f x # xs else x # update_first P f xs)"

fun delete_first :: "('a \<Rightarrow> bool) \<Rightarrow> 'a list \<Rightarrow> 'a list" where
  "delete_first P [] = []"
| "delete_first P (x # xs) = (if P x then xs else x # delete_first P xs)"

definition Category_findById :: "oid \<Rightarrow> world \<Rightarrow> category option" where
  "Category_findById cid w = find (\<lambda>c. cat_id c = cid) (categories w)"

definition Item_findById :: "oid \<Rightarrow> world \<Rightarrow> item option" where
  "Item_findById iid w = find (\<lambda>i. item_id i = iid) (items w)"

definition Item_countDocuments :: "(item \<Rightarrow> bool) \<Rightarrow> world \<Rightarrow> nat" where
  "Item_countDocuments query w = length (filter query (items w))"

definition Category_findByIdAndUpdate ::
  "oid \<Rightarrow> (category \<Rightarrow> category) \<Rightarrow> world \<Rightarrow> category option \<times> world" where
  "Category_findByIdAndUpdate cid upd w =
     (case Category_findById cid w of
        None \<Rightarrow> (None, w)
      | Some c \<Rightarrow>
          (Some (upd c), w\<lparr>categories := update_first (\<lambda>c. cat_id c = cid) upd (categories w)\<rparr>))"

definition Category_findByIdAndDelete :: "oid \<Rightarrow> world \<Rightarrow> category option \<times> world" where
  "Category_findByIdAndDelete cid w =
     (case Category_findById cid w of
        None \<Rightarrow> (None, w)
      | Some c \<Rightarrow> (Some c, w\<lparr>categories := delete_first (\<lambda>c. cat_id c = cid) (categories w)\<rparr>))"

section \<open>The counter maintainer\<close>

text \<open>
  \<^verbatim>\<open>export const updateCategoryItemCount = async (categoryId) => {
     try {
        const itemCount = await Item.countDocuments({ category: categoryId, status: "active" });
        await Category.findByIdAndUpdate(categoryId, { itemCount });
     } catch (error) { logger.error("Update category item count error:", error); } };\<close>
  Each of the two store calls may be rejected; which one is, if any, is the \<open>fault\<close>
  argument. A rejected call has written nothing.
\<close>

datatype fault = NoFault | CountFails | UpdateFails

definition updateCategoryItemCount :: "fault \<Rightarrow> oid \<Rightarrow> world \<Rightarrow> world" where
  "updateCategoryItemCount f categoryId w =
     (case f of
        CountFails \<Rightarrow> logged ''Update category item count error:'' w
      | UpdateFails \<Rightarrow> logged ''Update category item count error:'' w
      | NoFault \<Rightarrow>
          (let itemCount' =
                 Item_countDocuments (\<lambda>i. item_category i = categoryId \<and> item_status i = Active) w
           in snd (Category_findByIdAndUpdate categoryId (\<lambda>c. c\<lparr>itemCount := itemCount'\<rparr>) w)))"

section \<open>Category handlers\<close>

text \<open>
  \<open>deleteCategory\<close>: the number of items that reference the category, of any status,
  blocks the deletion; otherwise the category is removed, or reported missing.
\<close>

definition deleteCategory :: "oid \<Rightarrow> world \<Rightarrow> response \<times> world" where
  "deleteCategory id' w =
     (let itemCount' = Item_countDocuments (\<lambda>i. item_category i = id') w
      in if itemCount' > 0
         then (json 400 False
                 (''Cannot delete category. It has '' @ show_nat itemCount'
                    @ '' items. Please move or delete items first.'') NoData, w)
         else (case Category_findByIdAndDelete id' w of
                 (None, w') \<Rightarrow> (json 404 False ''Category not found'' NoData, w')
               | (Some category, w') \<Rightarrow>
                   (json 200 True ''Category deleted successfully'' NoData, w')))"

text \<open>
  The body of a category request, and what \<open>new Category(...)\<close> followed by \<open>save()\<close>
  does with it under the schema of the relaxed variant: the setters (\<open>trim\<close>,
  \<open>lowercase\<close>), the validators (\<open>required\<close>, \<open>maxlength\<close>, \<open>match\<close>), the defaults
  and the unique index on \<open>slug\<close>. (The pre-save hook of the model would fill a missing
  slug from the name; validation runs before it and rejects a missing slug, so it never
  acts.)
\<close>

record category_body =
  cb_name :: "string option"
  cb_slug :: "string option"
  cb_description :: "string option"
  cb_icon :: "string option"
  cb_gradient :: "string option"
  cb_status :: "category_status option"
  cb_sortOrder :: "int option"

definition Category_save :: "category_body \<Rightarrow> world \<Rightarrow> exn + category \<times> world" where
  "Category_save doc w =
     (let name = (case cb_name doc of None \<Rightarrow> [] | Some n \<Rightarrow> trim n);
          slug = (case cb_slug doc of None \<Rightarrow> [] | Some s \<Rightarrow> normalise_slug s);
          description = (case cb_description doc of None \<Rightarrow> [] | Some d \<Rightarrow> trim d)
      in if name = [] \<or> slug = [] \<or> description = [] then Inl ValidationError
         else if length name > 50 \<or> length description > 500 \<or> \<not> list_all is_slug_char slug
         then Inl ValidationError
         else if slug \<in> set (map cat_slug (categories w)) then Inl DuplicateKeyError
         else
           (let category =
                  \<lparr>cat_id = next_id w, cat_name = name, cat_slug = slug,
                   cat_description = description,
                   cat_icon = map_option trim (cb_icon doc),
                   cat_gradient =
                     (case cb_gradient doc of
                        None \<Rightarrow> Some ''from-blue-500 to-purple-600''
                      | Some g \<Rightarrow> Some (trim g)),
                   cat_status = (case cb_status doc of None \<Rightarrow> CategoryActive | Some s \<Rightarrow> s),
                   cat_sortOrder = (case cb_sortOrder doc of None \<Rightarrow> 0 | Some n \<Rightarrow> n),
                   itemCount = 0\<rparr>
            in Inr (category,
                 w\<lparr>categories := categories w @ [category], next_id := next_id w + 1\<rparr>)))"

text \<open>
  \<open>createCategory\<close> of the relaxed variant: the slug is the one given, or the name run
  through the slug chain; the uniqueness loop then finds the first free candidate.
\<close>

definition createCategory :: "category_body \<Rightarrow> world \<Rightarrow> response \<times> world" where
  "createCategory body w =
     (let categorySlug =
            (if \<not> truthy (cb_slug body) \<and> truthy (cb_name body)
             then map_option slugify (cb_name body) else cb_slug body)
      in case categorySlug of
           None \<Rightarrow> (json 400 False ''Category name is required to generate slug'' NoData, w)
         | Some base \<Rightarrow>
             if base = []
             then (json 400 False ''Category name is required to generate slug'' NoData, w)
             else
               (let uniqueSlug = slug_loop (map cat_slug (categories w)) base base 1
                in case Category_save (body\<lparr>cb_slug := Some uniqueSlug\<rparr>) w of
                     Inl e \<Rightarrow> internal_error ''Create category error:'' w
                   | Inr (category, w') \<Rightarrow>
                       (json 201 True ''Category created successfully'' (CategoryData category),
                        w')))"

section \<open>Authentication\<close>

text \<open>
  The password check (\<open>bcrypt.compare\<close>) and the token library (\<open>jwt.sign\<close>,
  \<open>jwt.verify\<close> with the configured secret and the clock) are outside the repository:
  the handlers take them as arguments. \<open>jwt.verify\<close> returns the \<open>id\<close> of the decoded
  payload, if it has one, or throws one of two errors.
\<close>

datatype jwt_error = JsonWebTokenError | TokenExpiredError

text \<open>
  The login route checks the password of the body for being non-empty only
  (\<open>notEmpty()\<close>), so the handler may receive a JSON number where a string is meant.
\<close>

datatype json_value = JString string | JNumber int | JMissing

record login_body =
  lb_email :: string
  lb_password :: json_value

text \<open>\<open>Admin.findOne({ email, isActive: true })\<close>; the schema trims and lower-cases \<open>email\<close>.\<close>

definition Admin_findOne_active :: "string \<Rightarrow> world \<Rightarrow> admin option" where
  "Admin_findOne_active email w =
     find (\<lambda>a. admin_email a = toLowerCase (trim email) \<and> admin_isActive a) (admins w)"

definition Admin_findById :: "oid \<Rightarrow> world \<Rightarrow> admin option" where
  "Admin_findById aid w = find (\<lambda>a. admin_id a = aid) (admins w)"

text \<open>
  \<open>login\<close>. \<open>admin.comparePassword(password)\<close> is \<open>bcrypt.compare(password, hash)\<close>: it
  resolves to a truth value for a string and rejects for anything else, and the
  rejection ends in the handler's catch block.
\<close>

definition login ::
  "(string \<Rightarrow> string \<Rightarrow> bool) \<Rightarrow> (oid \<Rightarrow> string) \<Rightarrow> nat \<Rightarrow> login_body \<Rightarrow> world
     \<Rightarrow> response \<times> world" where
  "login bcrypt_compare jwt_sign now body w =
     (case Admin_findOne_active (lb_email body) w of
        None \<Rightarrow> (json 401 False ''Invalid email or password'' NoData, w)
      | Some admin \<Rightarrow>
          (case lb_password body of
             JNumber n \<Rightarrow> internal_error ''Login error:'' w
           | JMissing \<Rightarrow> internal_error ''Login error:'' w
           | JString password \<Rightarrow>
               (let isPasswordValid = bcrypt_compare password (admin_password admin)
                in if \<not> isPasswordValid
                   then (json 401 False ''Invalid email or password'' NoData, w)
                   else
                     (let admin' = admin\<lparr>admin_lastLogin := Some now\<rparr>;
                          w' = w\<lparr>admins := update_first (\<lambda>a. admin_id a = admin_id admin)
                                             (\<lambda>a. admin') (admins w)\<rparr>;
                          token = jwt_sign (admin_id admin)
                      in (\<lparr>res_status = 200, res_success = True,
                           res_message = Some ''Login successful'',
                           res_data =
                             LoginData
                               \<lparr>sum_id = admin_id admin', sum_username = admin_username admin',
                                sum_email = admin_email admin', sum_role = admin_role admin',
                                sum_lastLogin = admin_lastLogin admin'\<rparr> token,
                           res_cookie = Some token\<rparr>, w')))))"

text \<open>
  The \<open>authenticate\<close> middleware. The token is
  \<open>req.header("Authorization")?.replace("Bearer ", "") || req.cookies?.token\<close>; the
  middleware either answers itself or attaches the admin, without the password, and
  calls \<open>next()\<close>. Every exception of the body, the two of \<open>jwt.verify\<close> included, ends
  in the one catch block.
\<close>

record auth_request =
  ar_authorization :: "string option"
  ar_cookie_token :: "string option"

datatype auth_outcome = Rejected response | Attached admin

definition request_token :: "auth_request \<Rightarrow> string option" where
  "request_token req =
     (let header = map_option (replace_first ''Bearer '' []) (ar_authorization req)
      in if truthy header then header else ar_cookie_token req)"

definition authenticate ::
  "(string \<Rightarrow> jwt_error + oid option) \<Rightarrow> auth_request \<Rightarrow> world \<Rightarrow> auth_outcome \<times> world" where
  "authenticate jwt_verify req w =
     (if \<not> truthy (request_token req)
      then (Rejected (json 401 False ''Access denied. No token provided.'' NoData), w)
      else
        (case jwt_verify (case request_token req of None \<Rightarrow> [] | Some t \<Rightarrow> t) of
           Inl error \<Rightarrow>
             (Rejected (json 401 False ''Invalid token.'' NoData),
              logged ''Authentication error:'' w)
         | Inr decoded_id \<Rightarrow>
             (case (case decoded_id of None \<Rightarrow> None | Some i \<Rightarrow> Admin_findById i w) of
                None \<Rightarrow> (Rejected (json 401 False ''Invalid token. Admin not found.'' NoData), w)
              | Some admin \<Rightarrow>
                  if \<not> admin_isActive admin
                  then (Rejected
                          (json 401 False ''Account is inactive. Please contact administrator.''
                             NoData), w)
                  else (Attached (admin\<lparr>admin_password := []\<rparr>), w))))"

text \<open>
  The global error handler of the typed application, for an error that reaches it with
  \<open>next(err)\<close>: its branches for the two token errors. (The branches before them answer
  a schema validation error and a duplicate key; the default answers with the error's
  own status and message.)
\<close>

datatype express_error =
    SchemaValidation "string list"
  | DuplicateKey string
  | TokenError jwt_error
  | OtherError "nat option" "string option"

definition globalErrorHandler :: "express_error \<Rightarrow> response \<times> string list" where
  "globalErrorHandler err =
     (case err of
        SchemaValidation errors \<Rightarrow> (json 400 False ''Validation error'' NoData, errors)
      | DuplicateKey field \<Rightarrow> (json 400 False (field @ '' already exists'') NoData, [])
      | TokenError JsonWebTokenError \<Rightarrow> (json 401 False ''Invalid token'' NoData, [])
      | TokenError TokenExpiredError \<Rightarrow> (json 401 False ''Token expired'' NoData, [])
      | OtherError statusCode message \<Rightarrow>
          (json (case statusCode of None \<Rightarrow> 500 | Some c \<Rightarrow> if c = 0 then 500 else c) False
             (case message of None \<Rightarrow> ''Internal server error''
              | Some m \<Rightarrow> if m = [] then ''Internal server error'' else m) NoData, []))"

section \<open>List handlers\<close>

text \<open>
  The query string of a list request after the validators: \<open>page\<close> and \<open>limit\<close> are
  non-negative integers when present, a status is one of the schema's values. The
  store's text index (\<open>$text\<close>) and its ordering of a result set by a named field, in
  ascending or descending direction, are arguments of the handlers.

  \<open>skip\<close> is \<open>(pageNum - 1) * limitNum\<close>: the store rejects a negative one, which the
  handler's catch block turns into 500. A \<open>limit\<close> of 0 is no limit, and then the page
  count is not a number (\<open>null\<close> in the JSON body).
\<close>

record category_query =
  cq_page :: "nat option"
  cq_limit :: "nat option"
  cq_search :: "string option"
  cq_status :: "category_status option"
  cq_sort :: "string option"
  cq_order :: "string option"

record item_query =
  iq_page :: "nat option"
  iq_limit :: "nat option"
  iq_search :: "string option"
  iq_category :: "oid option"
  iq_status :: "item_status option"
  iq_featured :: "string option"
  iq_sort :: "string option"
  iq_order :: "string option"

definition category_filter :: "(string \<Rightarrow> category \<Rightarrow> bool) \<Rightarrow> category_query \<Rightarrow> category \<Rightarrow> bool" where
  "category_filter textSearch q c \<longleftrightarrow>
     (case cq_search q of None \<Rightarrow> True | Some s \<Rightarrow> s = [] \<or> textSearch s c)
     \<and> (case cq_status q of None \<Rightarrow> True | Some st \<Rightarrow> cat_status c = st)"

definition item_filter :: "(string \<Rightarrow> item \<Rightarrow> bool) \<Rightarrow> item_query \<Rightarrow> item \<Rightarrow> bool" where
  "item_filter textSearch q i \<longleftrightarrow>
     (case iq_search q of None \<Rightarrow> True | Some s \<Rightarrow> s = [] \<or> textSearch s i)
     \<and> (case iq_category q of None \<Rightarrow> True | Some c \<Rightarrow> item_category i = c)
     \<and> (case iq_status q of None \<Rightarrow> True | Some st \<Rightarrow> item_status i = st)
     \<and> (case iq_featured q of None \<Rightarrow> True
          | Some f \<Rightarrow> f = [] \<or> item_featured i = Some (f = ''true''))"

text \<open>The pagination block of a list response.\<close>

definition page_info :: "nat \<Rightarrow> nat \<Rightarrow> nat \<Rightarrow> pagination" where
  "page_info pageNum limitNum total' =
     (let totalPages = (if limitNum = 0 then None else Some ((total' + limitNum - 1) div limitNum))
      in \<lparr>pg_current = pageNum, pg_pages = totalPages, pg_total = total', pg_limit = limitNum,
          hasNext = (case totalPages of None \<Rightarrow> total' > 0 | Some p \<Rightarrow> pageNum < p),
          hasPrev = (pageNum > 1)\<rparr>)"

text \<open>\<open>.skip(skip).limit(limitNum)\<close> on a sorted result set, for a skip that is not negative.\<close>

definition skip_limit :: "nat \<Rightarrow> nat \<Rightarrow> 'a list \<Rightarrow> 'a list" where
  "skip_limit skip limitNum docs =
     (if limitNum = 0 then drop skip docs else take limitNum (drop skip docs))"

definition getCategories ::
  "(string \<Rightarrow> category \<Rightarrow> bool) \<Rightarrow> (string \<Rightarrow> bool \<Rightarrow> category list \<Rightarrow> category list)
     \<Rightarrow> category_query \<Rightarrow> world \<Rightarrow> response \<times> world" where
  "getCategories textSearch sortBy q w =
     (let pageNum = (case cq_page q of None \<Rightarrow> 1 | Some p \<Rightarrow> p);
          limitNum = (case cq_limit q of None \<Rightarrow> 10 | Some l \<Rightarrow> l);
          sort' = (case cq_sort q of None \<Rightarrow> ''createdAt'' | Some s \<Rightarrow> s);
          order' = (case cq_order q of None \<Rightarrow> ''desc'' | Some s \<Rightarrow> s)
      in if pageNum = 0 \<and> limitNum > 0 then internal_error ''Get categories error:'' w
         else
           (let matching = filter (category_filter textSearch q) (categories w);
                categories' =
                  skip_limit ((pageNum - 1) * limitNum) limitNum
                    (sortBy sort' (order' = ''asc'') matching);
                total' = length matching
            in (\<lparr>res_status = 200, res_success = True, res_message = None,
                 res_data = CategoryPage categories' (page_info pageNum limitNum total'),
                 res_cookie = None\<rparr>, w)))"

text \<open>\<open>populate("category", "name slug")\<close> and, in the typed variant, \<open>populate("createdBy", "username")\<close>.\<close>

definition populate :: "variant \<Rightarrow> world \<Rightarrow> item \<Rightarrow> item_view" where
  "populate v w i =
     \<lparr>view_item = i,
      view_category =
        map_option (\<lambda>c. (cat_id c, cat_name c, cat_slug c)) (Category_findById (item_category i) w),
      view_createdBy =
        (case v of
           Relaxed \<Rightarrow> None
         | Typed \<Rightarrow>
             (case item_createdBy i of
                None \<Rightarrow> None
              | Some a \<Rightarrow> map_option admin_username (find (\<lambda>x. admin_id x = a) (admins w))))\<rparr>"

definition getItems ::
  "variant \<Rightarrow> (string \<Rightarrow> item \<Rightarrow> bool) \<Rightarrow> (string \<Rightarrow> bool \<Rightarrow> item list \<Rightarrow> item list)
     \<Rightarrow> item_query \<Rightarrow> world \<Rightarrow> response \<times> world" where
  "getItems v textSearch sortBy q w =
     (let pageNum = (case iq_page q of None \<Rightarrow> 1 | Some p \<Rightarrow> p);
          limitNum = (case iq_limit q of None \<Rightarrow> 10 | Some l \<Rightarrow> l);
          sort' = (case iq_sort q of None \<Rightarrow> ''createdAt'' | Some s \<Rightarrow> s);
          order' = (case iq_order q of None \<Rightarrow> ''desc'' | Some s \<Rightarrow> s)
      in if pageNum = 0 \<and> limitNum > 0 then internal_error ''Get items error:'' w
         else
           (let matching = filter (item_filter textSearch q) (items w);
                items' =
                  map (populate v w)
                    (skip_limit ((pageNum - 1) * limitNum) limitNum
                       (sortBy sort' (order' = ''asc'') matching));
                total' = length matching
            in (\<lparr>res_status = 200, res_success = True, res_message = None,
                 res_data = ItemPage items' (page_info pageNum limitNum total'),
                 res_cookie = None\<rparr>, w)))"

section \<open>Item handlers\<close>

text \<open>
  The body of an item request. The descriptive fields that no handler reads (release
  date, developer, platforms, images, ratings, tags, ...) are not carried one by one:
  \<open>ib_rest_valid\<close> says whether they pass the validators of the schema. An entry of
  the \<open>characters\<close> array may be \<open>null\<close> (\<open>None\<close>): the route's validator looks at the
  fields of the entries only.
\<close>

record item_body =
  ib_title :: "string option"
  ib_description :: "string option"
  ib_slug :: "string option"
  ib_category :: "oid option"
  ib_status :: "item_status option"
  ib_featured :: "bool option"
  ib_characters :: "character option list option"
  ib_rest_valid :: bool

definition empty_item_body :: item_body where
  "empty_item_body =
     \<lparr>ib_title = None, ib_description = None, ib_slug = None, ib_category = None,
      ib_status = None, ib_featured = None, ib_characters = None, ib_rest_valid = True\<rparr>"

subsection \<open>The item schemas\<close>

text \<open>
  The validators of a path, on the value after its setters. The typed schema requires
  title, slug and description; the relaxed one checks them only when they are there,
  and \<open>match\<close> lets the empty string pass.
\<close>

definition title_ok :: "variant \<Rightarrow> string option \<Rightarrow> bool" where
  "title_ok v t =
     (case t of
        None \<Rightarrow> v = Relaxed
      | Some x \<Rightarrow> length x \<le> 200 \<and> (v = Relaxed \<or> x \<noteq> []))"

definition description_ok :: "variant \<Rightarrow> string option \<Rightarrow> bool" where
  "description_ok v d =
     (case d of
        None \<Rightarrow> v = Relaxed
      | Some x \<Rightarrow> length x \<le> 2000 \<and> (v = Relaxed \<or> x \<noteq> []))"

definition slug_ok :: "variant \<Rightarrow> string option \<Rightarrow> bool" where
  "slug_ok v s =
     (case s of
        None \<Rightarrow> v = Relaxed
      | Some x \<Rightarrow> list_all is_slug_char x \<and> (v = Relaxed \<or> x \<noteq> []))"

definition trim_character :: "character \<Rightarrow> character" where
  "trim_character ch =
     ch\<lparr>ch_name := map_option trim (ch_name ch),
        ch_description := map_option trim (ch_description ch)\<rparr>"

text \<open>
  The entries of a \<open>characters\<close> array that are objects. An array that reaches the model
  has passed the handler's loop over it, so it has no other entry.
\<close>

definition present_characters :: "character option list option \<Rightarrow> character list" where
  "present_characters characters =
     (case characters of
        None \<Rightarrow> []
      | Some cs \<Rightarrow> concat (map (\<lambda>c. case c of None \<Rightarrow> [] | Some ch \<Rightarrow> [ch]) cs))"

definition character_ok :: "character \<Rightarrow> bool" where
  "character_ok ch \<longleftrightarrow>
     (case ch_name ch of None \<Rightarrow> True | Some n \<Rightarrow> length n \<le> 100)
     \<and> (case ch_description ch of None \<Rightarrow> True | Some d \<Rightarrow> length d \<le> 300)"

text \<open>\<open>new Item({...})\<close>: setters and defaults; a path outside the schema is dropped.\<close>

definition new_Item :: "variant \<Rightarrow> item_body \<Rightarrow> oid option \<Rightarrow> oid \<Rightarrow> oid \<Rightarrow> item" where
  "new_Item v doc createdBy category iid =
     \<lparr>item_id = iid,
      item_title = map_option trim (ib_title doc),
      item_description = map_option trim (ib_description doc),
      item_slug = map_option normalise_slug (ib_slug doc),
      item_category = category,
      item_status = (case ib_status doc of None \<Rightarrow> Draft | Some s \<Rightarrow> s),
      item_featured =
        (case v of
           Typed \<Rightarrow> Some (case ib_featured doc of None \<Rightarrow> False | Some b \<Rightarrow> b)
         | Relaxed \<Rightarrow> None),
      item_characters =
        (case v of
           Typed \<Rightarrow> []
         | Relaxed \<Rightarrow> map trim_character (present_characters (ib_characters doc))),
      item_createdBy = (case v of Typed \<Rightarrow> createdBy | Relaxed \<Rightarrow> None)\<rparr>"

definition item_valid :: "variant \<Rightarrow> item_body \<Rightarrow> item \<Rightarrow> bool" where
  "item_valid v doc i \<longleftrightarrow>
     title_ok v (item_title i) \<and> description_ok v (item_description i) \<and> slug_ok v (item_slug i)
     \<and> list_all character_ok (item_characters i)
     \<and> (v = Relaxed \<or> item_createdBy i \<noteq> None)
     \<and> ib_rest_valid doc"

text \<open>
  The pre-save hook of the relaxed item model: a document without a slug gets one from
  its title, every character outside \<open>[a-z0-9]\<close> turned into a hyphen, the runs of
  hyphens collapsed and one hyphen stripped at either end. It runs after validation.
\<close>

definition model_slug :: "string \<Rightarrow> string" where
  "model_slug title =
     strip_edge_hyphens
       (replace_runs is_hyphen ''-''
         (map (\<lambda>c. if is_slug_char c \<and> \<not> is_hyphen c then c else CHR ''-'')
            (toLowerCase title)))"

definition item_pre_save :: "variant \<Rightarrow> item \<Rightarrow> item" where
  "item_pre_save v i =
     (case v of
        Typed \<Rightarrow> i
      | Relaxed \<Rightarrow>
          (case item_title i of
             None \<Rightarrow> i
           | Some title \<Rightarrow>
               if \<not> truthy (item_slug i) \<and> title \<noteq> []
               then i\<lparr>item_slug := Some (normalise_slug (model_slug title))\<rparr>
               else i))"

text \<open>
  The post hooks of the relaxed item model (\<open>post("save")\<close> and
  \<open>post("findOneAndDelete")\<close>): the same count and write as the counter maintainer, with
  no catch block around them, so a rejected store call rejects the \<open>save()\<close> or the
  \<open>findByIdAndDelete()\<close> that ran the hook; \<open>hf\<close> is the failure the hook meets. The
  typed model has no hooks.
\<close>

definition item_post_hook :: "variant \<Rightarrow> fault \<Rightarrow> oid \<Rightarrow> world \<Rightarrow> exn + world" where
  "item_post_hook v hf category w =
     (case v of
        Typed \<Rightarrow> Inr w
      | Relaxed \<Rightarrow>
          (case hf of
             CountFails \<Rightarrow> Inl StoreError
           | UpdateFails \<Rightarrow> Inl StoreError
           | NoFault \<Rightarrow>
               (let count' =
                      Item_countDocuments
                        (\<lambda>i. item_category i = category \<and> item_status i = Active) w
                in Inr (snd (Category_findByIdAndUpdate category
                               (\<lambda>c. c\<lparr>itemCount := count'\<rparr>) w)))))"

text \<open>
  \<open>save()\<close> of a new item: validation, the pre-save hook, the insertion under the unique
  index on \<open>slug\<close>, the post hook. An error comes with the store as the call left it: a
  failure of the post hook leaves the item inserted.
\<close>

definition Item_save ::
  "variant \<Rightarrow> fault \<Rightarrow> item_body \<Rightarrow> oid option \<Rightarrow> world \<Rightarrow> exn \<times> world + item \<times> world" where
  "Item_save v hf doc createdBy w =
     (case ib_category doc of
        None \<Rightarrow> Inl (ValidationError, w)
      | Some category \<Rightarrow>
          (let built = new_Item v doc createdBy category (next_id w)
           in if \<not> item_valid v doc built then Inl (ValidationError, w)
              else
                (let item = item_pre_save v built
                 in if item_slug item \<in> set (map item_slug (items w))
                    then Inl (DuplicateKeyError, w)
                    else
                      (let w1 = w\<lparr>items := items w @ [item], next_id := next_id w + 1\<rparr>
                       in case item_post_hook v hf category w1 of
                            Inl e \<Rightarrow> Inl (e, w1)
                          | Inr w2 \<Rightarrow> Inr (item, w2)))))"

text \<open>\<open>Item.findOne({ slug })\<close> and \<open>Item.findOne({ slug, _id: { $ne: id } })\<close>.\<close>

definition Item_findOne_slug :: "string option \<Rightarrow> world \<Rightarrow> item option" where
  "Item_findOne_slug s w = find (\<lambda>i. item_slug i = map_option normalise_slug s) (items w)"

definition Item_findOne_slug_other :: "string option \<Rightarrow> oid \<Rightarrow> world \<Rightarrow> item option" where
  "Item_findOne_slug_other s iid w =
     find (\<lambda>i. item_slug i = map_option normalise_slug s \<and> item_id i \<noteq> iid) (items w)"

definition item_slugs :: "world \<Rightarrow> string list" where
  "item_slugs w = concat (map (\<lambda>i. case item_slug i of None \<Rightarrow> [] | Some s \<Rightarrow> [s]) (items w))"

text \<open>
  \<open>Item.findByIdAndUpdate(id, update, { new: true, runValidators: true })\<close>: a path
  whose value is undefined is left alone; the validators run on the paths that are set.
\<close>

definition item_apply :: "variant \<Rightarrow> item_body \<Rightarrow> item \<Rightarrow> item" where
  "item_apply v upd i =
     i\<lparr>item_title := (case ib_title upd of None \<Rightarrow> item_title i | Some t \<Rightarrow> Some (trim t)),
       item_description :=
         (case ib_description upd of None \<Rightarrow> item_description i | Some d \<Rightarrow> Some (trim d)),
       item_slug :=
         (case ib_slug upd of None \<Rightarrow> item_slug i | Some s \<Rightarrow> Some (normalise_slug s)),
       item_category := (case ib_category upd of None \<Rightarrow> item_category i | Some c \<Rightarrow> c),
       item_status := (case ib_status upd of None \<Rightarrow> item_status i | Some s \<Rightarrow> s),
       item_featured :=
         (case v of
            Relaxed \<Rightarrow> item_featured i
          | Typed \<Rightarrow> (case ib_featured upd of None \<Rightarrow> item_featured i | Some b \<Rightarrow> Some b)),
       item_characters :=
         (case v of
            Typed \<Rightarrow> item_characters i
          | Relaxed \<Rightarrow>
              (case ib_characters upd of
                 None \<Rightarrow> item_characters i
               | Some cs \<Rightarrow> map trim_character (present_characters (Some cs))))\<rparr>"

definition update_valid :: "variant \<Rightarrow> item_body \<Rightarrow> bool" where
  "update_valid v upd \<longleftrightarrow>
     (ib_title upd = None \<or> title_ok v (map_option trim (ib_title upd)))
     \<and> (ib_description upd = None \<or> description_ok v (map_option trim (ib_description upd)))
     \<and> (ib_slug upd = None \<or> slug_ok v (map_option normalise_slug (ib_slug upd)))
     \<and> (v = Typed \<or> list_all character_ok
           (map trim_character (present_characters (ib_characters upd))))
     \<and> ib_rest_valid upd"

definition Item_findByIdAndUpdate ::
  "variant \<Rightarrow> oid \<Rightarrow> item_body \<Rightarrow> world \<Rightarrow> exn + item option \<times> world" where
  "Item_findByIdAndUpdate v iid upd w =
     (if \<not> update_valid v upd then Inl ValidationError
      else
        (case Item_findById iid w of
           None \<Rightarrow> Inr (None, w)
         | Some i \<Rightarrow>
             if ib_slug upd \<noteq> None \<and> Item_findOne_slug_other (ib_slug upd) iid w \<noteq> None
             then Inl DuplicateKeyError
             else Inr (Some (item_apply v upd i),
                    w\<lparr>items := update_first (\<lambda>x. item_id x = iid) (item_apply v upd) (items w)\<rparr>)))"

definition Item_findByIdAndDelete ::
  "variant \<Rightarrow> fault \<Rightarrow> oid \<Rightarrow> world \<Rightarrow> exn \<times> world + item option \<times> world" where
  "Item_findByIdAndDelete v hf iid w =
     (case Item_findById iid w of
        None \<Rightarrow> Inr (None, w)
      | Some i \<Rightarrow>
          (let w1 = w\<lparr>items := delete_first (\<lambda>x. item_id x = iid) (items w)\<rparr>
           in case item_post_hook v hf (item_category i) w1 of
                Inl e \<Rightarrow> Inl (e, w1)
              | Inr w2 \<Rightarrow> Inr (Some i, w2)))"

subsection \<open>Create\<close>

text \<open>
  Every handler that ends with a recount takes \<open>rf\<close>, the failure each call of the
  counter maintainer meets, by category; a handler of the relaxed variant whose store
  call runs a post hook takes \<open>hf\<close>, the failure that hook meets.

  \<open>createItem\<close> of the typed variant: category check, slug check, save, recount,
  populate. \<open>admin\<close> is \<open>req.admin?._id\<close>.
\<close>

definition createItem_ts ::
  "(oid \<Rightarrow> fault) \<Rightarrow> oid option \<Rightarrow> item_body \<Rightarrow> world \<Rightarrow> response \<times> world" where
  "createItem_ts rf admin body w =
     (case (case ib_category body of None \<Rightarrow> None | Some c \<Rightarrow> Category_findById c w) of
        None \<Rightarrow> (json 400 False ''Category not found'' NoData, w)
      | Some categoryExists \<Rightarrow>
          (case Item_findOne_slug (ib_slug body) w of
             Some existingItem \<Rightarrow>
               (json 400 False ''Item with this slug already exists'' NoData, w)
           | None \<Rightarrow>
               (case Item_save Typed NoFault body admin w of
                  Inl (e, w1) \<Rightarrow> internal_error ''Create item error:'' w1
                | Inr (item, w1) \<Rightarrow>
                    (let w2 = updateCategoryItemCount (rf (item_category item))
                                (item_category item) w1
                     in (json 201 True ''Item created successfully''
                           (ItemData (populate Typed w2 item)), w2)))))"

text \<open>
  \<open>createItem\<close> of the relaxed variant: the category must be given, no character
  description may exceed 300 characters, a slug must be given or derivable from the
  title; only then is the category looked up. The loop over the characters reads
  \<open>char.description\<close> of each entry in turn: it throws at a \<open>null\<close> entry, which the
  catch block answers, and returns at the first description that is too long.
\<close>

datatype characters_verdict = CharactersPass | CharacterTooLong | CharacterThrows

fun check_characters :: "character option list \<Rightarrow> characters_verdict" where
  "check_characters [] = CharactersPass"
| "check_characters (None # rest) = CharacterThrows"
| "check_characters (Some ch # rest) =
     (if (case ch_description ch of None \<Rightarrow> False | Some d \<Rightarrow> length d > 300)
      then CharacterTooLong else check_characters rest)"

definition characters_check :: "character option list option \<Rightarrow> characters_verdict" where
  "characters_check characters =
     (case characters of None \<Rightarrow> CharactersPass | Some cs \<Rightarrow> check_characters cs)"

definition createItem_js ::
  "fault \<Rightarrow> (oid \<Rightarrow> fault) \<Rightarrow> item_body \<Rightarrow> world \<Rightarrow> response \<times> world" where
  "createItem_js hf rf body w =
     (case ib_category body of
        None \<Rightarrow> (json 400 False ''Category is required.'' NoData, w)
      | Some category \<Rightarrow>
          (case characters_check (ib_characters body) of
             CharacterThrows \<Rightarrow> internal_error ''Create item error:'' w
           | CharacterTooLong \<Rightarrow>
               (json 400 False ''Character description must be 300 characters or less.'' NoData,
                w)
           | CharactersPass \<Rightarrow>
               (let itemSlug =
                      (if \<not> truthy (ib_slug body) \<and> truthy (ib_title body)
                       then map_option slugify (ib_title body) else ib_slug body)
                in if \<not> truthy itemSlug
                   then (json 400 False ''Title is required to generate slug'' NoData, w)
                   else
                     (case Category_findById category w of
                        None \<Rightarrow> (json 400 False ''Category not found'' NoData, w)
                      | Some categoryExists \<Rightarrow>
                          (let base = (case itemSlug of None \<Rightarrow> [] | Some s \<Rightarrow> s);
                               uniqueSlug = slug_loop (item_slugs w) base base 1;
                               doc = body\<lparr>ib_slug := Some uniqueSlug,
                                         ib_characters :=
                                           Some (case ib_characters body of
                                                   None \<Rightarrow> [] | Some cs \<Rightarrow> cs),
                                         ib_status :=
                                           Some (case ib_status body of
                                                   None \<Rightarrow> Draft | Some s \<Rightarrow> s)\<rparr>
                           in case Item_save Relaxed hf doc None w of
                                Inl (e, w1) \<Rightarrow> internal_error ''Create item error:'' w1
                              | Inr (item, w1) \<Rightarrow>
                                  (let w2 = updateCategoryItemCount (rf category) category w1
                                   in (json 201 True ''Item created successfully''
                                         (ItemData (populate Relaxed w2 item)), w2)))))))"

subsection \<open>Update, status change, delete\<close>

text \<open>
  The recounts after an update: the old and the new category when the request moves the
  item (the two calls run under \<open>Promise.all\<close>; they write different categories and
  read the items only, so their order does not matter), else the old one.
\<close>

definition recount_after_update :: "(oid \<Rightarrow> fault) \<Rightarrow> oid option \<Rightarrow> oid \<Rightarrow> world \<Rightarrow> world" where
  "recount_after_update rf category oldCategory w =
     (case category of
        None \<Rightarrow> updateCategoryItemCount (rf oldCategory) oldCategory w
      | Some c \<Rightarrow>
          if c \<noteq> oldCategory
          then updateCategoryItemCount (rf c) c
                 (updateCategoryItemCount (rf oldCategory) oldCategory w)
          else updateCategoryItemCount (rf oldCategory) oldCategory w)"

definition category_missing :: "oid option \<Rightarrow> item \<Rightarrow> world \<Rightarrow> bool" where
  "category_missing category currentItem w \<longleftrightarrow>
     (case category of
        None \<Rightarrow> False
      | Some c \<Rightarrow> c \<noteq> item_category currentItem \<and> Category_findById c w = None)"

definition slug_taken_by_other :: "string option \<Rightarrow> oid \<Rightarrow> item \<Rightarrow> world \<Rightarrow> bool" where
  "slug_taken_by_other slug iid currentItem w \<longleftrightarrow>
     truthy slug \<and> slug \<noteq> item_slug currentItem \<and> Item_findOne_slug_other slug iid w \<noteq> None"

definition updateItem_ts ::
  "(oid \<Rightarrow> fault) \<Rightarrow> oid \<Rightarrow> item_body \<Rightarrow> world \<Rightarrow> response \<times> world" where
  "updateItem_ts rf iid body w =
     (case Item_findById iid w of
        None \<Rightarrow> (json 404 False ''Item not found'' NoData, w)
      | Some currentItem \<Rightarrow>
          if category_missing (ib_category body) currentItem w
          then (json 400 False ''Category not found'' NoData, w)
          else if slug_taken_by_other (ib_slug body) iid currentItem w
          then (json 400 False ''Item with this slug already exists'' NoData, w)
          else
            (let oldCategory = item_category currentItem
             in case Item_findByIdAndUpdate Typed iid body w of
                  Inl e \<Rightarrow> internal_error ''Update item error:'' w
                | Inr (None, w1) \<Rightarrow> (json 404 False ''Item not found'' NoData, w1)
                | Inr (Some item, w1) \<Rightarrow>
                    (let view = populate Typed w1 item;
                         w2 = recount_after_update rf (ib_category body) oldCategory w1
                     in (json 200 True ''Item updated successfully'' (ItemData view), w2))))"

definition updateItem_js ::
  "(oid \<Rightarrow> fault) \<Rightarrow> oid \<Rightarrow> item_body \<Rightarrow> world \<Rightarrow> response \<times> world" where
  "updateItem_js rf iid body w =
     (case characters_check (ib_characters body) of
        CharacterThrows \<Rightarrow> internal_error ''Update item error:'' w
      | CharacterTooLong \<Rightarrow>
          (json 400 False ''Character description must be 300 characters or less.'' NoData, w)
      | CharactersPass \<Rightarrow>
          (case Item_findById iid w of
             None \<Rightarrow> (json 404 False ''Item not found'' NoData, w)
           | Some currentItem \<Rightarrow>
               (let derived =
                      (if \<not> truthy (ib_slug body) \<and> truthy (ib_title body)
                       then map_option slugify (ib_title body) else ib_slug body);
                    itemSlug = (if \<not> truthy derived then item_slug currentItem else derived)
                in if category_missing (ib_category body) currentItem w
                   then (json 400 False ''Category not found'' NoData, w)
                   else if slug_taken_by_other itemSlug iid currentItem w
                   then (json 400 False ''Item with this slug already exists'' NoData, w)
                   else
                     (let oldCategory = item_category currentItem;
                          updateData =
                            body\<lparr>ib_slug := itemSlug,
                                 ib_characters :=
                                   Some (case ib_characters body of None \<Rightarrow> [] | Some cs \<Rightarrow> cs)\<rparr>
                      in case Item_findByIdAndUpdate Relaxed iid updateData w of
                           Inl e \<Rightarrow> internal_error ''Update item error:'' w
                         | Inr (None, w1) \<Rightarrow> (json 404 False ''Item not found'' NoData, w1)
                         | Inr (Some item, w1) \<Rightarrow>
                             (let view = populate Relaxed w1 item;
                                  w2 = recount_after_update rf (ib_category body) oldCategory w1
                              in (json 200 True ''Item updated successfully'' (ItemData view),
                                  w2))))))"

text \<open>
  \<open>updateItemStatus\<close>: the item comes back with its category populated; the recount is
  called with \<open>item.category._id\<close>, which throws when the category no longer exists.
\<close>

definition updateItemStatus ::
  "variant \<Rightarrow> (oid \<Rightarrow> fault) \<Rightarrow> oid \<Rightarrow> item_status option \<Rightarrow> world \<Rightarrow> response \<times> world" where
  "updateItemStatus v rf iid status' w =
     (case Item_findByIdAndUpdate v iid (empty_item_body\<lparr>ib_status := status'\<rparr>) w of
        Inl e \<Rightarrow> internal_error ''Update item status error:'' w
      | Inr (None, w1) \<Rightarrow> (json 404 False ''Item not found'' NoData, w1)
      | Inr (Some item, w1) \<Rightarrow>
          (case Category_findById (item_category item) w1 of
             None \<Rightarrow> internal_error ''Update item status error:'' w1
           | Some category \<Rightarrow>
               (let w2 = updateCategoryItemCount (rf (cat_id category)) (cat_id category) w1
                in (json 200 True ''Item status updated successfully''
                      (ItemData
                         \<lparr>view_item = item,
                          view_category = Some (cat_id category, cat_name category, cat_slug category),
                          view_createdBy = None\<rparr>), w2))))"

definition deleteItem ::
  "variant \<Rightarrow> fault \<Rightarrow> (oid \<Rightarrow> fault) \<Rightarrow> oid \<Rightarrow> world \<Rightarrow> response \<times> world" where
  "deleteItem v hf rf iid w =
     (case Item_findByIdAndDelete v hf iid w of
        Inl (e, w1) \<Rightarrow> internal_error ''Delete item error:'' w1
      | Inr (None, w1) \<Rightarrow> (json 404 False ''Item not found'' NoData, w1)
      | Inr (Some item, w1) \<Rightarrow>
          (let w2 = updateCategoryItemCount (rf (item_category item)) (item_category item) w1
           in (json 200 True ''Item deleted successfully'' NoData, w2)))"

text \<open>\<open>[...new Set(xs)]\<close>: the distinct elements, each at its first occurrence.\<close>

definition distinct_in_order :: "'a list \<Rightarrow> 'a list" where
  "distinct_in_order xs = rev (remdups (rev xs))"

text \<open>
  \<open>bulkDeleteItems\<close>: \<open>ids\<close> is \<open>None\<close> when the body carries no array. One recount per
  distinct category of the items found; \<open>deleteMany\<close> runs no hook.
\<close>

definition bulkDeleteItems ::
  "(oid \<Rightarrow> fault) \<Rightarrow> oid list option \<Rightarrow> world \<Rightarrow> response \<times> world" where
  "bulkDeleteItems rf ids w =
     (case ids of
        None \<Rightarrow> (json 400 False ''Please provide an array of item IDs'' NoData, w)
      | Some ids' \<Rightarrow>
          if ids' = [] then (json 400 False ''Please provide an array of item IDs'' NoData, w)
          else
            (let items' = filter (\<lambda>i. item_id i \<in> set ids') (items w);
                 categoryIds = distinct_in_order (map item_category items');
                 deletedCount = length items';
                 w1 = w\<lparr>items := filter (\<lambda>i. item_id i \<notin> set ids') (items w)\<rparr>;
                 w2 = fold (\<lambda>categoryId. updateCategoryItemCount (rf categoryId) categoryId)
                        categoryIds w1
             in (json 200 True (show_nat deletedCount @ '' items deleted successfully'') NoData,
                 w2)))"

text \<open>
  What a request leaves behind, as far as a client can tell: the response and the items.
\<close>

definition same_outcome :: "response \<times> world \<Rightarrow> response \<times> world \<Rightarrow> bool" where
  "same_outcome a b \<longleftrightarrow> fst a = fst b \<and> items (snd a) = items (snd b)"

section \<open>Small stores for the instances\<close>

definition demo_category :: "oid \<Rightarrow> string \<Rightarrow> nat \<Rightarrow> category" where
  "demo_category cid slug n =
     \<lparr>cat_id = cid, cat_name = slug, cat_slug = slug, cat_description = ''about '' @ slug,
      cat_icon = None, cat_gradient = None, cat_status = CategoryActive, cat_sortOrder = 0,
      itemCount = n\<rparr>"

definition demo_item :: "oid \<Rightarrow> string \<Rightarrow> oid \<Rightarrow> item_status \<Rightarrow> item" where
  "demo_item iid slug cid st =
     \<lparr>item_id = iid, item_title = Some slug, item_description = Some ''text'',
      item_slug = Some slug, item_category = cid, item_status = st, item_featured = None,
      item_characters = [], item_createdBy = None\<rparr>"

text \<open>
  Two categories and four items: \<open>movies\<close> holds two active items and a draft,
  \<open>games\<close> holds one inactive item. The stored counters are stale on purpose.
\<close>

definition demo_world :: world where
  "demo_world =
     \<lparr>categories = [demo_category 1 ''movies'' 7, demo_category 2 ''games'' 7],
      items = [demo_item 11 ''alien'' 1 Active, demo_item 12 ''brazil'' 1 Draft,
               demo_item 13 ''casablanca'' 1 Active, demo_item 14 ''doom'' 2 Inactive],
      admins = [], error_log = [], next_id = 20\<rparr>"

text \<open>A category request with a name and no slug.\<close>

definition demo_category_body :: category_body where
  "demo_category_body =
     \<lparr>cb_name = Some ''Sci Fi'', cb_slug = None, cb_description = Some ''Science fiction'',
      cb_icon = None, cb_gradient = None, cb_status = None, cb_sortOrder = None\<rparr>"

text \<open>
  A store with one active and one inactive admin; the stand-in for \<open>bcrypt.compare\<close>
  accepts the password whose stored form is the password behind \<open>hash:\<close>.
\<close>

definition demo_admins :: world where
  "demo_admins =
     \<lparr>categories = [], items = [],
      admins = [\<lparr>admin_id = 1, admin_username = ''root'', admin_email = ''root@example.org'',
                 admin_password = ''hash:secret'', admin_role = SuperAdmin,
                 admin_isActive = True, admin_lastLogin = None\<rparr>,
                \<lparr>admin_id = 2, admin_username = ''old'', admin_email = ''old@example.org'',
                 admin_password = ''hash:letmein'', admin_role = Admin,
                 admin_isActive = False, admin_lastLogin = None\<rparr>],
      error_log = [], next_id = 3\<rparr>"

definition demo_compare :: "string \<Rightarrow> string \<Rightarrow> bool" where
  "demo_compare password stored \<longleftrightarrow> stored = ''hash:'' @ password"

text \<open>
  A stand-in for \<open>jwt.verify\<close> that knows one expired token and rejects everything else
  as malformed; one request carries the expired token in the header, the other a
  malformed one in the cookie.
\<close>

definition demo_verify :: "string \<Rightarrow> jwt_error + oid option" where
  "demo_verify t = (if t = ''expired.token'' then Inl TokenExpiredError else Inl JsonWebTokenError)"

text \<open>
  A store of 25 categories and 25 items, all selected by a query without filters; the
  stand-in for the store's sort keeps the insertion order when ascending and reverses it
  when descending.
\<close>

definition demo_catalog :: world where
  "demo_catalog =
     \<lparr>categories = map (\<lambda>n. demo_category n (show_nat n) 0) [1..<26],
      items = map (\<lambda>n. demo_item (100 + n) (show_nat n) 1 Active) [1..<26],
      admins = [], error_log = [], next_id = 200\<rparr>"

definition demo_sort :: "string \<Rightarrow> bool \<Rightarrow> 'a list \<Rightarrow> 'a list" where
  "demo_sort field asc docs = (if asc then docs else rev docs)"

definition demo_category_query :: category_query where
  "demo_category_query =
     \<lparr>cq_page = Some 2, cq_limit = Some 10, cq_search = None, cq_status = None,
      cq_sort = None, cq_order = None\<rparr>"

definition demo_item_query :: item_query where
  "demo_item_query =
     \<lparr>iq_page = Some 2, iq_limit = Some 10, iq_search = None, iq_category = None,
      iq_status = None, iq_featured = None, iq_sort = None, iq_order = None\<rparr>"

text \<open>An item request under the identifier 9, which no category of the small store has.\<close>

definition demo_item_body :: item_body where
  "demo_item_body = empty_item_body\<lparr>ib_title := Some ''Alien'', ib_category := Some 9\<rparr>"

text \<open>An item request under the category \<open>movies\<close> of the small store.\<close>

definition demo_create_body :: item_body where
  "demo_create_body = empty_item_body\<lparr>ib_title := Some ''Alien'', ib_category := Some 1\<rparr>"

text \<open>
  Three more requests under the identifier 9: one with a character description of 301
  characters, one whose title has no character a slug keeps, one without a category.
\<close>

definition demo_long_character_body :: item_body where
  "demo_long_character_body =
     demo_item_body
       \<lparr>ib_characters :=
          Some [Some \<lparr>ch_name = Some ''Ripley'', ch_image = None,
                      ch_description = Some (replicate 301 CHR ''x'')\<rparr>]\<rparr>"

definition demo_untitled_body :: item_body where
  "demo_untitled_body = demo_item_body\<lparr>ib_title := Some ''!!!''\<rparr>"

definition demo_uncategorised_body :: item_body where
  "demo_uncategorised_body = demo_item_body\<lparr>ib_category := None\<rparr>"

section \<open>Slug normalisation\<close>

lemma slug_char_not_upper: "is_slug_char c \<Longrightarrow> \<not> is_upper c"
  by (auto simp: is_slug_char_def is_upper_def Let_def)

lemma slug_char_not_space: "is_slug_char c \<Longrightarrow> \<not> is_space c"
  by (auto simp: is_slug_char_def is_space_def Let_def)

lemma toLowerCase_slug_chars: "list_all is_slug_char s \<Longrightarrow> toLowerCase s = s"
  unfolding toLowerCase_def
  by (rule map_idI) (simp add: list_all_iff slug_char_not_upper)

lemma dropWhile_none: "\<forall>c \<in> set s. \<not> P c \<Longrightarrow> dropWhile P s = s"
  by (cases s) auto

lemma trim_no_space: "\<forall>c \<in> set s. \<not> is_space c \<Longrightarrow> trim s = s"
  by (simp add: trim_def dropWhile_none)

lemma replace_runs_none: "\<forall>c \<in> set s. \<not> P c \<Longrightarrow> replace_runs P r s = s"
  by (induction s) auto

lemma replace_runs_single_hyphens:
  "\<not> has_repeated_hyphen s \<Longrightarrow> replace_runs is_hyphen ''-'' s = s"
proof (induction s rule: has_repeated_hyphen.induct)
  case (1 a b cs)
  show ?case
  proof (cases "is_hyphen a")
    case True
    with 1 have "\<not> is_hyphen b" and "replace_runs is_hyphen ''-'' (b # cs) = b # cs"
      by auto
    moreover from True have "a = CHR ''-''" by (simp add: is_hyphen_def)
    ultimately show ?thesis using True by simp
  next
    case False
    with 1 show ?thesis by simp
  qed
qed (auto simp: is_hyphen_def)

lemma strip_edge_hyphens_clean:
  "s \<noteq> [] \<Longrightarrow> \<not> is_hyphen (hd s) \<Longrightarrow> \<not> is_hyphen (last s) \<Longrightarrow> strip_edge_hyphens s = s"
  by (cases s) (auto simp: strip_edge_hyphens_def)

text \<open>
  Claim C8. The slug normalisation leaves an already clean input as it is: a non-empty
  string over \<open>[a-z0-9-]\<close> that neither starts nor ends with a hyphen and has no two
  hyphens in a row comes back unchanged.
\<close>

theorem slugify_clean_unchanged:
  "clean_slug s \<Longrightarrow> slugify s = s"
proof -
  assume c: "clean_slug s"
  then have chars: "list_all is_slug_char s" by (simp add: clean_slug_def)
  then have nosp: "\<forall>c \<in> set s. \<not> is_space c"
    by (simp add: list_all_iff slug_char_not_space)
  have keep: "filter (\<lambda>c. is_slug_char c \<or> is_space c) s = s"
    using chars by (simp add: list_all_iff)
  have "slugify s = strip_edge_hyphens (replace_runs is_hyphen ''-'' (replace_runs is_space ''-'' s))"
    by (simp add: slugify_def toLowerCase_slug_chars [OF chars] trim_no_space [OF nosp] keep)
  also have "\<dots> = strip_edge_hyphens (replace_runs is_hyphen ''-'' s)"
    by (simp add: replace_runs_none [OF nosp])
  also have "\<dots> = strip_edge_hyphens s"
    using c by (simp add: clean_slug_def replace_runs_single_hyphens)
  also have "\<dots> = s"
    using c by (simp add: clean_slug_def strip_edge_hyphens_clean)
  finally show ?thesis .
qed

text \<open>The instance the specification names: \<open>slugify("movies") == "movies"\<close>.\<close>

theorem slugify_movies:
  "clean_slug ''movies'' \<and> slugify ''movies'' = ''movies''"
proof -
  have c: "clean_slug ''movies''" by code_simp
  from slugify_clean_unchanged [OF c] c show ?thesis by simp
qed

section \<open>The counter and the delete check\<close>

lemma find_update_first_same:
  "(\<And>x. P x \<Longrightarrow> P (f x)) \<Longrightarrow> find P (update_first P f xs) = map_option f (find P xs)"
  by (induction xs) auto

lemma find_update_first_other:
  "(\<And>x. P x \<Longrightarrow> \<not> Q x \<and> \<not> Q (f x)) \<Longrightarrow> find Q (update_first P f xs) = find Q xs"
  by (induction xs) auto

lemma filter_update_first_other:
  "(\<And>x. P x \<Longrightarrow> \<not> Q x \<and> \<not> Q (f x)) \<Longrightarrow> filter Q (update_first P f xs) = filter Q xs"
  by (induction xs) auto

lemma map_update_first_keeps:
  "(\<And>x. g (f x) = g x) \<Longrightarrow> map g (update_first P f xs) = map g xs"
  by (induction xs) auto

lemma find_None_update_first: "find P xs = None \<Longrightarrow> update_first P f xs = xs"
  by (induction xs) (auto split: if_splits)

lemma find_None_delete_first: "find P xs = None \<Longrightarrow> delete_first P xs = xs"
  by (induction xs) (auto split: if_splits)

lemma categories_recount:
  "categories (updateCategoryItemCount NoFault cid w)
     = update_first (\<lambda>c. cat_id c = cid)
         (\<lambda>c. c\<lparr>itemCount :=
            length (filter (\<lambda>i. item_category i = cid \<and> item_status i = Active) (items w))\<rparr>)
         (categories w)"
  by (cases "find (\<lambda>c. cat_id c = cid) (categories w)")
    (simp_all add: updateCategoryItemCount_def Category_findByIdAndUpdate_def
      Category_findById_def Item_countDocuments_def find_None_update_first)

lemma items_recount [simp]: "items (updateCategoryItemCount f cid w) = items w"
  by (cases f)
    (simp_all add: updateCategoryItemCount_def Category_findByIdAndUpdate_def logged_def
      Let_def split: option.splits)

lemma admins_recount [simp]: "admins (updateCategoryItemCount f cid w) = admins w"
  by (cases f)
    (simp_all add: updateCategoryItemCount_def Category_findByIdAndUpdate_def logged_def
      Let_def split: option.splits)

text \<open>
  Claim C1. A recount that meets no failure stores, on the category it is called for,
  the number of items that reference it and are active; an inactive or draft item adds
  nothing. Every category with another identifier, the order of the collection and the
  items stay as they were.
\<close>

theorem recount_sets_active_count:
  "Category_findById categoryId (updateCategoryItemCount NoFault categoryId w)
     = map_option
         (\<lambda>c. c\<lparr>itemCount :=
            length (filter (\<lambda>i. item_category i = categoryId \<and> item_status i = Active)
              (items w))\<rparr>)
         (Category_findById categoryId w)
   \<and> filter (\<lambda>c. cat_id c \<noteq> categoryId)
         (categories (updateCategoryItemCount NoFault categoryId w))
       = filter (\<lambda>c. cat_id c \<noteq> categoryId) (categories w)
   \<and> (\<forall>other. other \<noteq> categoryId \<longrightarrow>
         Category_findById other (updateCategoryItemCount NoFault categoryId w)
           = Category_findById other w)
   \<and> map cat_id (categories (updateCategoryItemCount NoFault categoryId w))
       = map cat_id (categories w)
   \<and> items (updateCategoryItemCount NoFault categoryId w) = items w"
proof (intro conjI allI impI)
  show "Category_findById categoryId (updateCategoryItemCount NoFault categoryId w)
     = map_option
         (\<lambda>c. c\<lparr>itemCount :=
            length (filter (\<lambda>i. item_category i = categoryId \<and> item_status i = Active)
              (items w))\<rparr>)
         (Category_findById categoryId w)"
    by (simp add: Category_findById_def categories_recount find_update_first_same)
  show "filter (\<lambda>c. cat_id c \<noteq> categoryId)
         (categories (updateCategoryItemCount NoFault categoryId w))
       = filter (\<lambda>c. cat_id c \<noteq> categoryId) (categories w)"
    by (simp add: categories_recount filter_update_first_other)
  show "map cat_id (categories (updateCategoryItemCount NoFault categoryId w))
       = map cat_id (categories w)"
    by (simp add: categories_recount map_update_first_keeps)
  show "items (updateCategoryItemCount NoFault categoryId w) = items w"
    by simp
next
  fix other :: oid
  assume "other \<noteq> categoryId"
  then have "find (\<lambda>c. cat_id c = other)
      (update_first (\<lambda>c. cat_id c = categoryId)
         (\<lambda>c. c\<lparr>itemCount :=
            length (filter (\<lambda>i. item_category i = categoryId \<and> item_status i = Active)
              (items w))\<rparr>)
         (categories w))
      = find (\<lambda>c. cat_id c = other) (categories w)"
    by (intro find_update_first_other) simp
  then show "Category_findById other (updateCategoryItemCount NoFault categoryId w)
           = Category_findById other w"
    by (simp add: Category_findById_def categories_recount)
qed

text \<open>On the small store: \<open>movies\<close> gets 2 (the draft is not counted), \<open>games\<close> keeps its 7.\<close>

theorem recount_demo:
  "map_option itemCount (Category_findById 1 (updateCategoryItemCount NoFault 1 demo_world)) = Some 2
   \<and> map_option itemCount (Category_findById 2 (updateCategoryItemCount NoFault 1 demo_world)) = Some 7"
proof -
  note t = recount_sets_active_count [of 1 demo_world]
  have ne: "(2::oid) \<noteq> 1" by simp
  from t have "Category_findById 2 (updateCategoryItemCount NoFault 1 demo_world)
      = Category_findById 2 demo_world"
    using ne by blast
  moreover from t have "Category_findById 1 (updateCategoryItemCount NoFault 1 demo_world)
     = map_option
         (\<lambda>c. c\<lparr>itemCount :=
            length (filter (\<lambda>i. item_category i = 1 \<and> item_status i = Active)
              (items demo_world))\<rparr>)
         (Category_findById 1 demo_world)"
    by blast
  ultimately show ?thesis
    by (simp add: Category_findById_def demo_world_def demo_category_def demo_item_def)
qed

lemma show_nat_one: "show_nat (Suc 0) = ''1''"
  by code_simp

lemma length_filter_conj_le:
  "length (filter (\<lambda>x. P x \<and> Q x) xs) \<le> length (filter P xs)"
  by (induction xs) auto

lemma delete_missing_category:
  "Category_findById cid w = None \<Longrightarrow> Category_findByIdAndDelete cid w = (None, w)"
  by (simp add: Category_findByIdAndDelete_def)

text \<open>
  Claim C2. A delete request for a category that at least one item references, whatever
  the status of the item or of the category, is answered 400 with the number of
  referencing items in the message, and the store is left as it was. A request for an
  identifier that no item references and no category carries is answered 404. The count
  that decides is the one the handler takes, \<open>itemCount\<close> in its text: the items that
  reference the category.
\<close>

theorem deleteCategory_conflict_or_missing:
  "(i \<in> set (items w) \<and> item_category i = cid \<longrightarrow>
      0 < Item_countDocuments (\<lambda>i. item_category i = cid) w
      \<and> deleteCategory cid w =
          (json 400 False
             (''Cannot delete category. It has ''
                @ show_nat (Item_countDocuments (\<lambda>i. item_category i = cid) w)
                @ '' items. Please move or delete items first.'') NoData, w))
   \<and> (Item_countDocuments (\<lambda>i. item_category i = cid) w = 0 \<and> Category_findById cid w = None \<longrightarrow>
      deleteCategory cid w = (json 404 False ''Category not found'' NoData, w))
   \<and> (0 < n \<and> n = Item_countDocuments (\<lambda>i. item_category i = cid \<and> item_status i = Active) w \<longrightarrow>
      res_status (fst (deleteCategory cid w)) = 400 \<and> snd (deleteCategory cid w) = w)"
proof (intro conjI impI)
  assume "i \<in> set (items w) \<and> item_category i = cid"
  then have "filter (\<lambda>i. item_category i = cid) (items w) \<noteq> []"
    by (auto simp: filter_empty_conv)
  then show pos: "0 < Item_countDocuments (\<lambda>i. item_category i = cid) w"
    by (simp add: Item_countDocuments_def)
  then show "deleteCategory cid w =
          (json 400 False
             (''Cannot delete category. It has ''
                @ show_nat (Item_countDocuments (\<lambda>i. item_category i = cid) w)
                @ '' items. Please move or delete items first.'') NoData, w)"
    by (simp add: deleteCategory_def Let_def)
next
  assume "Item_countDocuments (\<lambda>i. item_category i = cid) w = 0 \<and> Category_findById cid w = None"
  then show "deleteCategory cid w = (json 404 False ''Category not found'' NoData, w)"
    by (simp add: deleteCategory_def Let_def delete_missing_category)
next
  assume a: "0 < n \<and> n = Item_countDocuments (\<lambda>i. item_category i = cid \<and> item_status i = Active) w"
  have "length (filter (\<lambda>i. item_category i = cid \<and> item_status i = Active) (items w))
      \<le> length (filter (\<lambda>i. item_category i = cid) (items w))"
    by (rule length_filter_conj_le)
  with a have "0 < length (filter (\<lambda>i. item_category i = cid) (items w))"
    unfolding Item_countDocuments_def by linarith
  then have pos: "0 < Item_countDocuments (\<lambda>i. item_category i = cid) w"
    unfolding Item_countDocuments_def .
  then show "res_status (fst (deleteCategory cid w)) = 400"
    by (simp add: deleteCategory_def Let_def json_def)
  from pos show "snd (deleteCategory cid w) = w"
    by (simp add: deleteCategory_def Let_def)
qed

text \<open>
  On the small store: \<open>games\<close> is referenced by one inactive item and cannot be deleted;
  the identifier 9 belongs to no category; \<open>movies\<close> has two active items.
\<close>

theorem deleteCategory_demo:
  "deleteCategory 2 demo_world =
     (json 400 False ''Cannot delete category. It has 1 items. Please move or delete items first.''
        NoData, demo_world)
   \<and> deleteCategory 9 demo_world = (json 404 False ''Category not found'' NoData, demo_world)
   \<and> res_status (fst (deleteCategory 1 demo_world)) = 400"
proof -
  have act: "0 < (2::nat) \<and> 2 = Item_countDocuments (\<lambda>i. item_category i = 1 \<and> item_status i = Active) demo_world"
    by (simp add: Item_countDocuments_def demo_world_def demo_item_def)
  have n: "Item_countDocuments (\<lambda>i. item_category i = 2) demo_world = 1"
    by (simp add: Item_countDocuments_def demo_world_def demo_item_def)
  have m: "demo_item 14 ''doom'' 2 Inactive \<in> set (items demo_world)
      \<and> item_category (demo_item 14 ''doom'' 2 Inactive) = 2"
    by (simp add: demo_world_def demo_item_def)
  have z: "Item_countDocuments (\<lambda>i. item_category i = 9) demo_world = 0
      \<and> Category_findById 9 demo_world = None"
    by (simp add: Item_countDocuments_def Category_findById_def demo_world_def demo_item_def
        demo_category_def)
  note one = show_nat_one
  from deleteCategory_conflict_or_missing [of "demo_item 14 ''doom'' 2 Inactive" demo_world 2 0] m
  have "deleteCategory 2 demo_world =
     (json 400 False
        (''Cannot delete category. It has ''
           @ show_nat (Item_countDocuments (\<lambda>i. item_category i = 2) demo_world)
           @ '' items. Please move or delete items first.'') NoData, demo_world)"
    by blast
  moreover from deleteCategory_conflict_or_missing [of undefined demo_world 9 0] z
  have "deleteCategory 9 demo_world = (json 404 False ''Category not found'' NoData, demo_world)"
    by blast
  moreover from deleteCategory_conflict_or_missing [of undefined demo_world 1 2] act
  have "res_status (fst (deleteCategory 1 demo_world)) = 400"
    by blast
  ultimately show ?thesis by (simp add: n one)
qed

text \<open>
  Claim C10. The delete check and the stored counter use different predicates: the check
  counts every referencing item, the counter the active ones. For a category that only
  inactive or draft items reference, the counter after a recount is 0 and the delete
  request is still answered 400, with the number of those items.
\<close>

theorem zero_count_yet_not_deletable:
  assumes "Category_findById cid w = Some c"
    and "i \<in> set (items w)" and "item_category i = cid"
    and "\<forall>j \<in> set (items w). item_category j = cid \<longrightarrow> item_status j \<noteq> Active"
  shows "map_option itemCount (Category_findById cid (updateCategoryItemCount NoFault cid w)) = Some 0
    \<and> 0 < Item_countDocuments (\<lambda>i. item_category i = cid) w
    \<and> deleteCategory cid (updateCategoryItemCount NoFault cid w) =
        (json 400 False
           (''Cannot delete category. It has ''
              @ show_nat (Item_countDocuments (\<lambda>i. item_category i = cid) w)
              @ '' items. Please move or delete items first.'') NoData,
         updateCategoryItemCount NoFault cid w)"
proof -
  let ?w = "updateCategoryItemCount NoFault cid w"
  have none: "filter (\<lambda>i. item_category i = cid \<and> item_status i = Active) (items w) = []"
    using assms(4) by (auto simp: filter_empty_conv)
  have "Category_findById cid ?w
      = map_option (\<lambda>c. c\<lparr>itemCount :=
            length (filter (\<lambda>i. item_category i = cid \<and> item_status i = Active) (items w))\<rparr>)
          (Category_findById cid w)"
    by (simp add: Category_findById_def categories_recount find_update_first_same)
  then have zero: "map_option itemCount (Category_findById cid ?w) = Some 0"
    using assms(1) none by simp
  have "filter (\<lambda>i. item_category i = cid) (items w) \<noteq> []"
    using assms(2,3) by (auto simp: filter_empty_conv)
  then have pos: "0 < Item_countDocuments (\<lambda>i. item_category i = cid) w"
    by (simp add: Item_countDocuments_def)
  have same: "Item_countDocuments (\<lambda>i. item_category i = cid) ?w
      = Item_countDocuments (\<lambda>i. item_category i = cid) w"
    by (simp add: Item_countDocuments_def)
  from pos same have "deleteCategory cid ?w =
        (json 400 False
           (''Cannot delete category. It has ''
              @ show_nat (Item_countDocuments (\<lambda>i. item_category i = cid) w)
              @ '' items. Please move or delete items first.'') NoData, ?w)"
    by (simp add: deleteCategory_def Let_def)
  with zero pos show ?thesis by simp
qed

text \<open>On the small store, \<open>games\<close>: counter 0 after the recount, deletion refused.\<close>

theorem zero_count_yet_not_deletable_demo:
  "map_option itemCount (Category_findById 2 (updateCategoryItemCount NoFault 2 demo_world)) = Some 0
   \<and> res_status (fst (deleteCategory 2 (updateCategoryItemCount NoFault 2 demo_world))) = 400
   \<and> res_message (fst (deleteCategory 2 (updateCategoryItemCount NoFault 2 demo_world)))
       = Some ''Cannot delete category. It has 1 items. Please move or delete items first.''"
proof -
  have a: "Category_findById 2 demo_world = Some (demo_category 2 ''games'' 7)"
    by (simp add: Category_findById_def demo_world_def demo_category_def)
  have b: "demo_item 14 ''doom'' 2 Inactive \<in> set (items demo_world)"
    by (simp add: demo_world_def)
  have c: "item_category (demo_item 14 ''doom'' 2 Inactive) = 2"
    by (simp add: demo_item_def)
  have d: "\<forall>j \<in> set (items demo_world). item_category j = 2 \<longrightarrow> item_status j \<noteq> Active"
    by (simp add: demo_world_def demo_item_def)
  have n: "Item_countDocuments (\<lambda>i. item_category i = 2) demo_world = 1"
    by (simp add: Item_countDocuments_def demo_world_def demo_item_def)
  note one = show_nat_one
  from zero_count_yet_not_deletable [OF a b c d] show ?thesis
    by (simp add: n one json_def)
qed

section \<open>Slug allocation\<close>

lemma set_replace_runs:
  "set (replace_runs P r s) \<subseteq> set r \<union> {c \<in> set s. \<not> P c}"
proof (induction P r s rule: replace_runs.induct)
  case (1 P r)
  show ?case by simp
next
  case (2 P r c cs)
  show ?case
  proof (cases "P c")
    case True
    with 2 have "set (replace_runs P r (dropWhile P cs)) \<subseteq> set r \<union> {c \<in> set (dropWhile P cs). \<not> P c}"
      by simp
    moreover have "set (dropWhile P cs) \<subseteq> set cs" by (auto dest: set_dropWhileD)
    ultimately show ?thesis using True by auto
  next
    case False
    with 2 show ?thesis by auto
  qed
qed

lemma set_strip_edge_hyphens: "set (strip_edge_hyphens s) \<subseteq> set s"
proof -
  define s1 where "s1 = (case s of [] \<Rightarrow> [] | c # cs \<Rightarrow> if is_hyphen c then cs else s)"
  have s1: "set s1 \<subseteq> set s"
    unfolding s1_def by (cases s) auto
  have "set (butlast s1) \<subseteq> set s1"
    by (rule subsetI) (rule in_set_butlastD)
  with s1 have "set (if s1 \<noteq> [] \<and> is_hyphen (last s1) then butlast s1 else s1) \<subseteq> set s"
    by auto
  then show ?thesis
    unfolding strip_edge_hyphens_def Let_def s1_def .
qed

lemma hyphen_is_slug_char: "is_slug_char CHR ''-''"
  by (simp add: is_slug_char_def)

lemma replace_runs_chars:
  assumes "\<forall>c \<in> set r. Q c" and "\<forall>c \<in> set s. \<not> P c \<longrightarrow> Q c"
  shows "\<forall>c \<in> set (replace_runs P r s). Q c"
proof
  fix c
  assume "c \<in> set (replace_runs P r s)"
  with set_replace_runs [of P r s] have "c \<in> set r \<or> (c \<in> set s \<and> \<not> P c)" by blast
  with assms show "Q c" by blast
qed

lemma slugify_slug_chars: "list_all is_slug_char (slugify name)"
proof -
  define a where "a = filter (\<lambda>c. is_slug_char c \<or> is_space c) (trim (toLowerCase name))"
  have hy: "\<forall>c \<in> set ''-''. is_slug_char c"
    by (simp add: hyphen_is_slug_char)
  have "\<forall>c \<in> set a. \<not> is_space c \<longrightarrow> is_slug_char c"
    unfolding a_def by auto
  with hy have "\<forall>c \<in> set (replace_runs is_space ''-'' a). is_slug_char c"
    by (rule replace_runs_chars)
  then have "\<forall>c \<in> set (replace_runs is_space ''-'' a). \<not> is_hyphen c \<longrightarrow> is_slug_char c"
    by blast
  with hy have "\<forall>c \<in> set (replace_runs is_hyphen ''-'' (replace_runs is_space ''-'' a)).
      is_slug_char c"
    by (rule replace_runs_chars)
  with set_strip_edge_hyphens
  have "\<forall>c \<in> set (strip_edge_hyphens
      (replace_runs is_hyphen ''-'' (replace_runs is_space ''-'' a))). is_slug_char c"
    by blast
  then show ?thesis
    unfolding slugify_def a_def list_all_iff .
qed

lemma normalise_slug_chars: "list_all is_slug_char s \<Longrightarrow> normalise_slug s = s"
  by (simp add: normalise_slug_def toLowerCase_slug_chars trim_no_space list_all_iff
      slug_char_not_space)

lemma space_not_upper: "is_space c \<Longrightarrow> \<not> is_upper c"
  by (auto simp: is_space_def is_upper_def Let_def)

lemma trim_blank: "trim name = [] \<Longrightarrow> \<forall>c \<in> set name. is_space c"
proof -
  assume "trim name = []"
  then have all: "\<forall>c \<in> set (dropWhile is_space name). is_space c"
    by (simp add: trim_def dropWhile_eq_Nil_conv)
  have "dropWhile is_space name = []"
  proof (rule ccontr)
    assume ne: "dropWhile is_space name \<noteq> []"
    then have "\<not> is_space (hd (dropWhile is_space name))" by (rule hd_dropWhile)
    moreover from ne have "hd (dropWhile is_space name) \<in> set (dropWhile is_space name)"
      by (rule hd_in_set)
    ultimately show False using all by blast
  qed
  then show ?thesis by (simp add: dropWhile_eq_Nil_conv)
qed

lemma slugify_blank: "trim name = [] \<Longrightarrow> slugify name = []"
proof -
  assume blank: "trim name = []"
  then have sp: "\<forall>c \<in> set name. is_space c" by (rule trim_blank)
  then have "toLowerCase name = name"
    unfolding toLowerCase_def by (intro map_idI) (simp add: space_not_upper)
  with blank have "trim (toLowerCase name) = []" by simp
  then show ?thesis
    by (simp add: slugify_def strip_edge_hyphens_def)
qed

lemma slug_loop_free:
  "normalise_slug uniqueSlug \<notin> set taken \<Longrightarrow> slug_loop taken base uniqueSlug counter = uniqueSlug"
  by (simp add: slug_loop.simps)

lemma slug_loop_taken:
  "normalise_slug uniqueSlug \<in> set taken \<Longrightarrow>
     slug_loop taken base uniqueSlug counter
       = slug_loop taken base (base @ ''-'' @ show_nat counter) (counter + 1)"
  by (subst slug_loop.simps) simp

text \<open>
  Once a probe has collided, the loop returns the first numbered candidate, from the
  counter on, that the store does not hold.
\<close>

lemma slug_loop_first_free_from:
  assumes "normalise_slug uniqueSlug \<in> set taken"
    and "counter \<le> k"
    and "\<forall>j. counter \<le> j \<and> j < k \<longrightarrow> normalise_slug (base @ ''-'' @ show_nat j) \<in> set taken"
    and "normalise_slug (base @ ''-'' @ show_nat k) \<notin> set taken"
  shows "slug_loop taken base uniqueSlug counter = base @ ''-'' @ show_nat k"
  using assms
proof (induction "k - counter" arbitrary: uniqueSlug counter)
  case 0
  then have "counter = k" by simp
  with 0 show ?case
    by (simp add: slug_loop_taken slug_loop_free)
next
  case (Suc d)
  then have lt: "counter < k" by simp
  with Suc.prems have hit: "normalise_slug (base @ ''-'' @ show_nat counter) \<in> set taken"
    by simp
  have "slug_loop taken base (base @ ''-'' @ show_nat counter) (counter + 1)
      = base @ ''-'' @ show_nat k"
  proof (rule Suc.hyps(1))
    show "d = k - (counter + 1)" using Suc.hyps(2) by simp
    show "normalise_slug (base @ ''-'' @ show_nat counter) \<in> set taken" by (rule hit)
    show "counter + 1 \<le> k" using lt by simp
    show "\<forall>j. counter + 1 \<le> j \<and> j < k \<longrightarrow> normalise_slug (base @ ''-'' @ show_nat j) \<in> set taken"
      using Suc.prems(3) by simp
    show "normalise_slug (base @ ''-'' @ show_nat k) \<notin> set taken" by (rule Suc.prems(4))
  qed
  with Suc.prems(1) show ?case
    by (simp add: slug_loop_taken)
qed

lemma numbered_slug_chars:
  "list_all is_slug_char s \<Longrightarrow> list_all is_slug_char (s @ ''-'' @ show_nat k)"
proof -
  have "list_all is_slug_char (show_nat k)"
    using show_nat_digits [of k]
    by (auto simp: list_all_iff is_digit_def is_slug_char_def Let_def)
  moreover assume "list_all is_slug_char s"
  ultimately show ?thesis by (simp add: hyphen_is_slug_char)
qed

lemma Category_save_ok:
  assumes "cb_name doc = Some name" and "trim name \<noteq> []" and "length (trim name) \<le> 50"
    and "cb_description doc = Some d" and "trim d \<noteq> []" and "length (trim d) \<le> 500"
    and "cb_slug doc = Some s" and "s \<noteq> []" and "list_all is_slug_char s"
    and "s \<notin> cat_slug ` set (categories w)"
  shows "\<exists>c. Category_save doc w
            = Inr (c, w\<lparr>categories := categories w @ [c], next_id := next_id w + 1\<rparr>)
          \<and> cat_slug c = s"
  using assms by (simp add: Category_save_def Let_def normalise_slug_chars)

text \<open>
  Claim C7. Two create requests in a row with the same name and no slug, on a store
  where no category slug starts with the base slug \<open>s\<close> of the name, create a category
  with slug \<open>s\<close> and then one with slug \<open>s-1\<close>. The requests are ones the schema accepts
  (a name of at most 50 characters, a description of at most 500). In general the loop
  returns, after the collision on the base, the first of \<open>base-1\<close>, \<open>base-2\<close>, ... that
  is free.
\<close>

theorem createCategory_twice_same_name:
  assumes "cb_name body = Some name" and "\<not> truthy (cb_slug body)"
    and "slugify name = s" and "s \<noteq> []"
    and "\<forall>c \<in> set (categories w). take (length s) (cat_slug c) \<noteq> s"
    and "length (trim name) \<le> 50"
    and "cb_description body = Some d" and "trim d \<noteq> []" and "length (trim d) \<le> 500"
  shows "(\<exists>c1 w1 c2 w2.
      createCategory body w
        = (json 201 True ''Category created successfully'' (CategoryData c1), w1)
      \<and> cat_slug c1 = s
      \<and> createCategory body w1
        = (json 201 True ''Category created successfully'' (CategoryData c2), w2)
      \<and> cat_slug c2 = s @ ''-1''
      \<and> map cat_slug (categories w2) = map cat_slug (categories w) @ [s, s @ ''-1''])
    \<and> (\<forall>taken base k. 1 \<le> k \<and> normalise_slug base \<in> set taken
          \<and> (\<forall>j. 1 \<le> j \<and> j < k \<longrightarrow> normalise_slug (base @ ''-'' @ show_nat j) \<in> set taken)
          \<and> normalise_slug (base @ ''-'' @ show_nat k) \<notin> set taken
        \<longrightarrow> slug_loop taken base base 1 = base @ ''-'' @ show_nat k)"
proof (rule conjI)
  have chars: "list_all is_slug_char s"
    using assms(3) slugify_slug_chars [of name] by simp
  have norm: "normalise_slug s = s" using chars by (rule normalise_slug_chars)
  have name_ne: "trim name \<noteq> []"
    using assms(3,4) slugify_blank [of name] by auto
  have truthy_name: "truthy (cb_name body)"
    using assms(1) name_ne by (auto simp: truthy_def trim_def)
  have base: "(if \<not> truthy (cb_slug body) \<and> truthy (cb_name body)
             then map_option slugify (cb_name body) else cb_slug body) = Some s"
    using assms(1,2,3) truthy_name by simp
  let ?taken = "map cat_slug (categories w)"
  have fresh: "s \<notin> set ?taken"
    using assms(5) by auto
  have first_slug: "slug_loop ?taken s s 1 = s"
    using fresh norm by (simp add: slug_loop_free)
  let ?doc1 = "body\<lparr>cb_slug := Some s\<rparr>"
  have "\<exists>c. Category_save ?doc1 w
            = Inr (c, w\<lparr>categories := categories w @ [c], next_id := next_id w + 1\<rparr>)
          \<and> cat_slug c = s"
    using assms(1,4,6,7,8,9) name_ne chars fresh
    by (intro Category_save_ok [where name = name and d = d]) simp_all
  then obtain c1 where save1: "Category_save ?doc1 w
            = Inr (c1, w\<lparr>categories := categories w @ [c1], next_id := next_id w + 1\<rparr>)"
    and slug1: "cat_slug c1 = s" by blast
  define w1 where "w1 = w\<lparr>categories := categories w @ [c1], next_id := next_id w + 1\<rparr>"
  have create1: "createCategory body w
        = (json 201 True ''Category created successfully'' (CategoryData c1), w1)"
    using assms(4) save1
    by (simp add: createCategory_def base first_slug w1_def del: One_nat_def)
  let ?s1 = "s @ ''-'' @ show_nat 1"
  let ?taken1 = "map cat_slug (categories w1)"
  have taken1: "?taken1 = ?taken @ [s]" by (simp add: w1_def slug1)
  have chars1: "list_all is_slug_char ?s1" using chars by (rule numbered_slug_chars)
  have norm1: "normalise_slug ?s1 = ?s1" using chars1 by (rule normalise_slug_chars)
  have "?s1 \<notin> set ?taken"
  proof
    assume "?s1 \<in> set ?taken"
    then obtain c where "c \<in> set (categories w)" and "cat_slug c = ?s1" by auto
    with assms(5) show False by auto
  qed
  then have fresh1: "?s1 \<notin> set ?taken1" by (simp add: taken1)
  have "slug_loop ?taken1 s s 1 = slug_loop ?taken1 s ?s1 (1 + 1)"
    by (rule slug_loop_taken) (simp add: taken1 norm)
  also have "\<dots> = ?s1"
    using fresh1 norm1 by (simp only: slug_loop_free not_False_eq_True)
  finally have second_slug: "slug_loop ?taken1 s s 1 = ?s1" .
  let ?doc2 = "body\<lparr>cb_slug := Some ?s1\<rparr>"
  have "\<exists>c. Category_save ?doc2 w1
            = Inr (c, w1\<lparr>categories := categories w1 @ [c], next_id := next_id w1 + 1\<rparr>)
          \<and> cat_slug c = ?s1"
    using assms(1,6,7,8,9) name_ne chars1 fresh1
    by (intro Category_save_ok [where name = name and d = d]) simp_all
  then obtain c2 where save2: "Category_save ?doc2 w1
            = Inr (c2, w1\<lparr>categories := categories w1 @ [c2], next_id := next_id w1 + 1\<rparr>)"
    and slug2: "cat_slug c2 = ?s1" by blast
  define w2 where "w2 = w1\<lparr>categories := categories w1 @ [c2], next_id := next_id w1 + 1\<rparr>"
  have create2: "createCategory body w1
        = (json 201 True ''Category created successfully'' (CategoryData c2), w2)"
    using assms(4) save2 second_slug
    by (simp add: createCategory_def base w2_def del: One_nat_def)
  have one: "?s1 = s @ ''-1''" by (simp add: show_nat_one)
  have "map cat_slug (categories w2) = ?taken @ [s, s @ ''-1'']"
    using taken1 slug2 one by (simp add: w2_def)
  with create1 slug1 create2 slug2 one
  have both: "createCategory body w
        = (json 201 True ''Category created successfully'' (CategoryData c1), w1)
      \<and> cat_slug c1 = s
      \<and> createCategory body w1
        = (json 201 True ''Category created successfully'' (CategoryData c2), w2)
      \<and> cat_slug c2 = s @ ''-1''
      \<and> map cat_slug (categories w2) = map cat_slug (categories w) @ [s, s @ ''-1'']"
    by simp
  show "\<exists>c1 w1 c2 w2.
      createCategory body w
        = (json 201 True ''Category created successfully'' (CategoryData c1), w1)
      \<and> cat_slug c1 = s
      \<and> createCategory body w1
        = (json 201 True ''Category created successfully'' (CategoryData c2), w2)
      \<and> cat_slug c2 = s @ ''-1''
      \<and> map cat_slug (categories w2) = map cat_slug (categories w) @ [s, s @ ''-1'']"
    apply (rule exI [where x = c1], rule exI [where x = w1])
    apply (rule exI [where x = c2], rule exI [where x = w2])
    apply (rule both)
    done
next
  show "\<forall>taken base k. 1 \<le> k \<and> normalise_slug base \<in> set taken
          \<and> (\<forall>j. 1 \<le> j \<and> j < k \<longrightarrow> normalise_slug (base @ ''-'' @ show_nat j) \<in> set taken)
          \<and> normalise_slug (base @ ''-'' @ show_nat k) \<notin> set taken
        \<longrightarrow> slug_loop taken base base 1 = base @ ''-'' @ show_nat k"
    by (intro allI impI slug_loop_first_free_from) simp_all
qed

text \<open>
  On the small store, the name \<open>Sci Fi\<close> twice: the slugs are \<open>sci-fi\<close> and
  \<open>sci-fi-1\<close>.
\<close>

theorem createCategory_twice_demo:
  "\<exists>c1 w1 c2 w2.
      createCategory demo_category_body demo_world
        = (json 201 True ''Category created successfully'' (CategoryData c1), w1)
      \<and> cat_slug c1 = ''sci-fi''
      \<and> createCategory demo_category_body w1
        = (json 201 True ''Category created successfully'' (CategoryData c2), w2)
      \<and> cat_slug c2 = ''sci-fi'' @ ''-1''
      \<and> map cat_slug (categories w2)
          = map cat_slug (categories demo_world) @ [''sci-fi'', ''sci-fi'' @ ''-1'']"
proof -
  have h1: "cb_name demo_category_body = Some ''Sci Fi''"
    by (simp add: demo_category_body_def)
  have h2: "\<not> truthy (cb_slug demo_category_body)"
    by (simp add: demo_category_body_def truthy_def)
  have h3: "slugify ''Sci Fi'' = ''sci-fi''" by code_simp
  have h4: "''sci-fi'' \<noteq> []" by simp
  have h5: "\<forall>c \<in> set (categories demo_world). take (length ''sci-fi'') (cat_slug c) \<noteq> ''sci-fi''"
    by (simp add: demo_world_def demo_category_def)
  have h6: "length (trim ''Sci Fi'') \<le> 50" by code_simp
  have h7: "cb_description demo_category_body = Some ''Science fiction''"
    by (simp add: demo_category_body_def)
  have h8: "trim ''Science fiction'' \<noteq> []" by code_simp
  have h9: "length (trim ''Science fiction'') \<le> 500" by code_simp
  show ?thesis
    by (rule conjunct1 [OF createCategory_twice_same_name [OF h1 h2 h3 h4 h5 h6 h7 h8 h9]])
qed

section \<open>Login and token failures\<close>

text \<open>
  Claim C5 asks that a login request whose email belongs to no active admin and one whose
  email is found but whose password is wrong get the same response, 401 with the
  message \<open>Invalid email or password\<close>. The handler does so when the password of the
  second request is a string. When it is not (a JSON number passes the route's
  validator), the password comparison throws: the request with the existing email is
  answered 500 and the one with the unknown email 401, so the two responses tell the
  cases apart.
\<close>

theorem login_failure_responses:
  assumes "Admin_findOne_active (lb_email unknown) w = None"
    and "Admin_findOne_active (lb_email known) w = Some a"
  shows "login bcrypt_compare jwt_sign now unknown w
           = (json 401 False ''Invalid email or password'' NoData, w)
    \<and> (\<forall>p. lb_password known = JString p \<and> \<not> bcrypt_compare p (admin_password a) \<longrightarrow>
          login bcrypt_compare jwt_sign now known w
            = login bcrypt_compare jwt_sign now unknown w)
    \<and> ((\<forall>p. lb_password known \<noteq> JString p) \<longrightarrow>
          login bcrypt_compare jwt_sign now known w
            = (json 500 False ''Internal server error'' NoData, logged ''Login error:'' w)
          \<and> fst (login bcrypt_compare jwt_sign now known w)
            \<noteq> fst (login bcrypt_compare jwt_sign now unknown w))"
proof (intro conjI allI impI)
  show u: "login bcrypt_compare jwt_sign now unknown w
           = (json 401 False ''Invalid email or password'' NoData, w)"
    using assms(1) by (simp add: login_def)
  fix p
  assume "lb_password known = JString p \<and> \<not> bcrypt_compare p (admin_password a)"
  then show "login bcrypt_compare jwt_sign now known w
            = login bcrypt_compare jwt_sign now unknown w"
    using assms by (simp add: login_def)
next
  assume n: "\<forall>p. lb_password known \<noteq> JString p"
  then show k: "login bcrypt_compare jwt_sign now known w
            = (json 500 False ''Internal server error'' NoData, logged ''Login error:'' w)"
    using assms(2) by (cases "lb_password known") (simp_all add: login_def internal_error_def)
  from n show "fst (login bcrypt_compare jwt_sign now known w)
            \<noteq> fst (login bcrypt_compare jwt_sign now unknown w)"
    using assms by (cases "lb_password known") (simp_all add: login_def internal_error_def json_def)
qed

text \<open>
  On the store of two admins: the inactive admin with the right password and the active
  one with a wrong password get the same 401; the active one with the number 12345 as
  password gets 500.
\<close>

theorem login_failure_responses_demo:
  "login demo_compare (\<lambda>i. ''token'') 5
     \<lparr>lb_email = ''old@example.org'', lb_password = JString ''letmein''\<rparr> demo_admins
   = (json 401 False ''Invalid email or password'' NoData, demo_admins)
   \<and> login demo_compare (\<lambda>i. ''token'') 5
     \<lparr>lb_email = ''Root@Example.org'', lb_password = JString ''wrong''\<rparr> demo_admins
   = login demo_compare (\<lambda>i. ''token'') 5
     \<lparr>lb_email = ''old@example.org'', lb_password = JString ''letmein''\<rparr> demo_admins
   \<and> login demo_compare (\<lambda>i. ''token'') 5
     \<lparr>lb_email = ''Root@Example.org'', lb_password = JNumber 12345\<rparr> demo_admins
   = (json 500 False ''Internal server error'' NoData, logged ''Login error:'' demo_admins)
   \<and> fst (login demo_compare (\<lambda>i. ''token'') 5
     \<lparr>lb_email = ''Root@Example.org'', lb_password = JNumber 12345\<rparr> demo_admins)
   \<noteq> fst (login demo_compare (\<lambda>i. ''token'') 5
     \<lparr>lb_email = ''old@example.org'', lb_password = JString ''letmein''\<rparr> demo_admins)"
proof -
  let ?unknown = "\<lparr>lb_email = ''old@example.org'', lb_password = JString ''letmein''\<rparr>"
  let ?wrong = "\<lparr>lb_email = ''Root@Example.org'', lb_password = JString ''wrong''\<rparr>"
  let ?number = "\<lparr>lb_email = ''Root@Example.org'', lb_password = JNumber 12345\<rparr>"
  have l: "toLowerCase (trim ''Root@Example.org'') = ''root@example.org''" by code_simp
  have o: "toLowerCase (trim ''old@example.org'') = ''old@example.org''" by code_simp
  have h1: "Admin_findOne_active (lb_email ?unknown) demo_admins = None"
    by (simp add: Admin_findOne_active_def demo_admins_def o)
  have h2: "Admin_findOne_active (lb_email ?wrong) demo_admins = Some (hd (admins demo_admins))"
    by (simp add: Admin_findOne_active_def demo_admins_def l)
  have h3: "Admin_findOne_active (lb_email ?number) demo_admins = Some (hd (admins demo_admins))"
    by (simp add: Admin_findOne_active_def demo_admins_def l)
  have w: "lb_password ?wrong = JString ''wrong''
      \<and> \<not> demo_compare ''wrong'' (admin_password (hd (admins demo_admins)))"
    by (simp add: demo_compare_def demo_admins_def)
  have n: "\<forall>p. lb_password ?number \<noteq> JString p" by simp
  note t1 = login_failure_responses
    [where bcrypt_compare = demo_compare and jwt_sign = "\<lambda>i. ''token''" and now = 5, OF h1 h2]
  note t2 = login_failure_responses
    [where bcrypt_compare = demo_compare and jwt_sign = "\<lambda>i. ''token''" and now = 5, OF h1 h3]
  from t1 have a: "login demo_compare (\<lambda>i. ''token'') 5 ?unknown demo_admins
      = (json 401 False ''Invalid email or password'' NoData, demo_admins)"
    by (rule conjunct1)
  from t1 w have b: "login demo_compare (\<lambda>i. ''token'') 5 ?wrong demo_admins
      = login demo_compare (\<lambda>i. ''token'') 5 ?unknown demo_admins"
    by blast
  from t2 n have c: "login demo_compare (\<lambda>i. ''token'') 5 ?number demo_admins
      = (json 500 False ''Internal server error'' NoData, logged ''Login error:'' demo_admins)
    \<and> fst (login demo_compare (\<lambda>i. ''token'') 5 ?number demo_admins)
      \<noteq> fst (login demo_compare (\<lambda>i. ''token'') 5 ?unknown demo_admins)"
    by blast
  from a b c show ?thesis by (intro conjI) (elim conjE, assumption)+
qed

text \<open>
  Claim C6 asks that \<open>authenticate\<close> tell an expired token from an invalid one. It does
  not: both errors of \<open>jwt.verify\<close> are caught by the middleware's own catch block and
  answered 401 \<open>Invalid token.\<close>; the error never reaches the global handler, whose
  branches would give the two different messages.
\<close>

theorem authenticate_expired_as_invalid:
  assumes "request_token expired = Some t1" and "request_token invalid = Some t2"
    and "t1 \<noteq> []" and "t2 \<noteq> []"
    and "jwt_verify t1 = Inl TokenExpiredError" and "jwt_verify t2 = Inl JsonWebTokenError"
  shows "authenticate jwt_verify expired w = authenticate jwt_verify invalid w
    \<and> fst (authenticate jwt_verify expired w) = Rejected (json 401 False ''Invalid token.'' NoData)
    \<and> fst (globalErrorHandler (TokenError TokenExpiredError))
        \<noteq> fst (globalErrorHandler (TokenError JsonWebTokenError))"
  using assms by (simp add: authenticate_def truthy_def globalErrorHandler_def json_def)

text \<open>
  One request carries the expired token in the header, the other a malformed one in the
  cookie; the answers are the same.
\<close>

theorem authenticate_expired_as_invalid_demo:
  "authenticate demo_verify
      \<lparr>ar_authorization = Some ''Bearer expired.token'', ar_cookie_token = None\<rparr> demo_admins
   = authenticate demo_verify
      \<lparr>ar_authorization = None, ar_cookie_token = Some ''garbage''\<rparr> demo_admins
   \<and> fst (authenticate demo_verify
      \<lparr>ar_authorization = Some ''Bearer expired.token'', ar_cookie_token = None\<rparr> demo_admins)
     = Rejected (json 401 False ''Invalid token.'' NoData)
   \<and> fst (globalErrorHandler (TokenError TokenExpiredError))
        \<noteq> fst (globalErrorHandler (TokenError JsonWebTokenError))"
proof -
  have h1: "request_token \<lparr>ar_authorization = Some ''Bearer expired.token'', ar_cookie_token = None\<rparr>
      = Some ''expired.token''"
    by (simp add: request_token_def truthy_def)
  have h2: "request_token \<lparr>ar_authorization = None, ar_cookie_token = Some ''garbage''\<rparr>
      = Some ''garbage''"
    by (simp add: request_token_def truthy_def)
  have h3: "''expired.token'' \<noteq> []" and h4: "''garbage'' \<noteq> []" by simp_all
  have h5: "demo_verify ''expired.token'' = Inl TokenExpiredError"
    and h6: "demo_verify ''garbage'' = Inl JsonWebTokenError"
    by (simp_all add: demo_verify_def)
  show ?thesis
    by (rule authenticate_expired_as_invalid
        [where jwt_verify = demo_verify, OF h1 h2 h3 h4 h5 h6])
qed

section \<open>Pagination\<close>

lemma page_info_2_10_25:
  "page_info 2 10 25
     = \<lparr>pg_current = 2, pg_pages = Some 3, pg_total = 25, pg_limit = 10, hasNext = True,
        hasPrev = True\<rparr>"
  by (simp add: page_info_def)

lemma second_page_of_25:
  assumes "length docs = 25"
  shows "skip_limit ((2 - 1) * 10) 10 docs = take 10 (drop 10 docs)"
    and "length (take 10 (drop 10 docs)) = 10"
    and "\<forall>k < 10. take 10 (drop 10 docs) ! k = docs ! (10 + k)"
  using assms by (simp_all add: skip_limit_def)

text \<open>
  Claim C9. A list request with \<open>page=2\<close> and \<open>limit=10\<close> whose filter selects 25
  documents is answered with the 10 documents at positions 11 to 20 of the sorted result
  set and the pagination block \<open>current = 2\<close>, \<open>pages = 3\<close>, \<open>total = 25\<close>,
  \<open>hasNext\<close>, \<open>hasPrev\<close>. This holds for the category list, and for the item list of
  either variant, each on a store and a query of its own. An item comes with the
  identifier, name and slug of the category it refers to, when there is one, and in the
  typed variant with the name of the admin who created it. The store's sort returns as
  many documents as it is given.
\<close>

theorem second_page_of_twenty_five:
  "((\<forall>f asc xs. length (sortCategories f asc xs) = length xs)
     \<and> cq_page cq = Some 2 \<and> cq_limit cq = Some 10
     \<and> length (filter (category_filter searchCategories cq) (categories wc)) = 25
     \<and> sortedCategories =
           sortCategories (case cq_sort cq of None \<Rightarrow> ''createdAt'' | Some s \<Rightarrow> s)
             ((case cq_order cq of None \<Rightarrow> ''desc'' | Some s \<Rightarrow> s) = ''asc'')
             (filter (category_filter searchCategories cq) (categories wc))
    \<longrightarrow> getCategories searchCategories sortCategories cq wc
          = (\<lparr>res_status = 200, res_success = True, res_message = None,
              res_data =
                CategoryPage (take 10 (drop 10 sortedCategories))
                  \<lparr>pg_current = 2, pg_pages = Some 3, pg_total = 25, pg_limit = 10,
                   hasNext = True, hasPrev = True\<rparr>,
              res_cookie = None\<rparr>, wc)
        \<and> length (take 10 (drop 10 sortedCategories)) = 10
        \<and> (\<forall>k < 10. take 10 (drop 10 sortedCategories) ! k = sortedCategories ! (10 + k)))
   \<and> ((\<forall>f asc xs. length (sortItems f asc xs) = length xs)
     \<and> iq_page iq = Some 2 \<and> iq_limit iq = Some 10
     \<and> length (filter (item_filter searchItems iq) (items wi)) = 25
     \<and> sortedItems =
           sortItems (case iq_sort iq of None \<Rightarrow> ''createdAt'' | Some s \<Rightarrow> s)
             ((case iq_order iq of None \<Rightarrow> ''desc'' | Some s \<Rightarrow> s) = ''asc'')
             (filter (item_filter searchItems iq) (items wi))
    \<longrightarrow> getItems v searchItems sortItems iq wi
          = (\<lparr>res_status = 200, res_success = True, res_message = None,
              res_data =
                ItemPage
                  (map (\<lambda>i. \<lparr>view_item = i,
                              view_category =
                                (case find (\<lambda>c. cat_id c = item_category i) (categories wi) of
                                   None \<Rightarrow> None
                                 | Some c \<Rightarrow> Some (cat_id c, cat_name c, cat_slug c)),
                              view_createdBy =
                                (case (v, item_createdBy i) of
                                   (Typed, Some a) \<Rightarrow>
                                     (case find (\<lambda>x. admin_id x = a) (admins wi) of
                                        None \<Rightarrow> None
                                      | Some x \<Rightarrow> Some (admin_username x))
                                 | _ \<Rightarrow> None)\<rparr>)
                     (take 10 (drop 10 sortedItems)))
                  \<lparr>pg_current = 2, pg_pages = Some 3, pg_total = 25, pg_limit = 10,
                   hasNext = True, hasPrev = True\<rparr>,
              res_cookie = None\<rparr>, wi)
        \<and> length (take 10 (drop 10 sortedItems)) = 10
        \<and> (\<forall>k < 10. take 10 (drop 10 sortedItems) ! k = sortedItems ! (10 + k)))"
proof (intro conjI impI)
  assume h: "(\<forall>f asc xs. length (sortCategories f asc xs) = length xs)
     \<and> cq_page cq = Some 2 \<and> cq_limit cq = Some 10
     \<and> length (filter (category_filter searchCategories cq) (categories wc)) = 25
     \<and> sortedCategories =
           sortCategories (case cq_sort cq of None \<Rightarrow> ''createdAt'' | Some s \<Rightarrow> s)
             ((case cq_order cq of None \<Rightarrow> ''desc'' | Some s \<Rightarrow> s) = ''asc'')
             (filter (category_filter searchCategories cq) (categories wc))"
  then have lc: "length sortedCategories = 25" by simp
  have c: "getCategories searchCategories sortCategories cq wc
      = (\<lparr>res_status = 200, res_success = True, res_message = None,
          res_data = CategoryPage (skip_limit ((2 - 1) * 10) 10 sortedCategories) (page_info 2 10 25),
          res_cookie = None\<rparr>, wc)"
    using h by (simp add: getCategories_def Let_def)
  from c second_page_of_25(1) [OF lc]
  show "getCategories searchCategories sortCategories cq wc
          = (\<lparr>res_status = 200, res_success = True, res_message = None,
              res_data =
                CategoryPage (take 10 (drop 10 sortedCategories))
                  \<lparr>pg_current = 2, pg_pages = Some 3, pg_total = 25, pg_limit = 10,
                   hasNext = True, hasPrev = True\<rparr>,
              res_cookie = None\<rparr>, wc)"
    by (simp only: page_info_2_10_25)
  show "length (take 10 (drop 10 sortedCategories)) = 10"
    by (rule second_page_of_25(2) [OF lc])
  show "\<forall>k < 10. take 10 (drop 10 sortedCategories) ! k = sortedCategories ! (10 + k)"
    by (rule second_page_of_25(3) [OF lc])
next
  assume h: "(\<forall>f asc xs. length (sortItems f asc xs) = length xs)
     \<and> iq_page iq = Some 2 \<and> iq_limit iq = Some 10
     \<and> length (filter (item_filter searchItems iq) (items wi)) = 25
     \<and> sortedItems =
           sortItems (case iq_sort iq of None \<Rightarrow> ''createdAt'' | Some s \<Rightarrow> s)
             ((case iq_order iq of None \<Rightarrow> ''desc'' | Some s \<Rightarrow> s) = ''asc'')
             (filter (item_filter searchItems iq) (items wi))"
  then have li: "length sortedItems = 25" by simp
  have p: "populate v wi = (\<lambda>i. \<lparr>view_item = i,
                              view_category =
                                (case find (\<lambda>c. cat_id c = item_category i) (categories wi) of
                                   None \<Rightarrow> None
                                 | Some c \<Rightarrow> Some (cat_id c, cat_name c, cat_slug c)),
                              view_createdBy =
                                (case (v, item_createdBy i) of
                                   (Typed, Some a) \<Rightarrow>
                                     (case find (\<lambda>x. admin_id x = a) (admins wi) of
                                        None \<Rightarrow> None
                                      | Some x \<Rightarrow> Some (admin_username x))
                                 | _ \<Rightarrow> None)\<rparr>)"
    by (rule ext)
      (simp add: populate_def Category_findById_def split: variant.splits option.splits)
  have i: "getItems v searchItems sortItems iq wi
      = (\<lparr>res_status = 200, res_success = True, res_message = None,
          res_data =
            ItemPage (map (populate v wi) (skip_limit ((2 - 1) * 10) 10 sortedItems))
              (page_info 2 10 25),
          res_cookie = None\<rparr>, wi)"
    using h by (simp add: getItems_def Let_def)
  from i second_page_of_25(1) [OF li]
  show "getItems v searchItems sortItems iq wi
          = (\<lparr>res_status = 200, res_success = True, res_message = None,
              res_data =
                ItemPage
                  (map (\<lambda>i. \<lparr>view_item = i,
                              view_category =
                                (case find (\<lambda>c. cat_id c = item_category i) (categories wi) of
                                   None \<Rightarrow> None
                                 | Some c \<Rightarrow> Some (cat_id c, cat_name c, cat_slug c)),
                              view_createdBy =
                                (case (v, item_createdBy i) of
                                   (Typed, Some a) \<Rightarrow>
                                     (case find (\<lambda>x. admin_id x = a) (admins wi) of
                                        None \<Rightarrow> None
                                      | Some x \<Rightarrow> Some (admin_username x))
                                 | _ \<Rightarrow> None)\<rparr>)
                     (take 10 (drop 10 sortedItems)))
                  \<lparr>pg_current = 2, pg_pages = Some 3, pg_total = 25, pg_limit = 10,
                   hasNext = True, hasPrev = True\<rparr>,
              res_cookie = None\<rparr>, wi)"
    by (simp only: page_info_2_10_25 p)
  show "length (take 10 (drop 10 sortedItems)) = 10"
    by (rule second_page_of_25(2) [OF li])
  show "\<forall>k < 10. take 10 (drop 10 sortedItems) ! k = sortedItems ! (10 + k)"
    by (rule second_page_of_25(3) [OF li])
qed

text \<open>
  On the store of 25 categories and 25 items, in the default descending order: the
  second page holds the categories 15 down to 6 and the items 115 down to 106, each
  item with the category 1 it refers to.
\<close>

theorem second_page_demo:
  "getCategories (\<lambda>s c. True) demo_sort demo_category_query demo_catalog
      = (\<lparr>res_status = 200, res_success = True, res_message = None,
          res_data =
            CategoryPage
              (map (\<lambda>n. demo_category n (show_nat n) 0) [15, 14, 13, 12, 11, 10, 9, 8, 7, 6])
              \<lparr>pg_current = 2, pg_pages = Some 3, pg_total = 25, pg_limit = 10,
               hasNext = True, hasPrev = True\<rparr>,
          res_cookie = None\<rparr>, demo_catalog)
    \<and> getItems Relaxed (\<lambda>s i. True) demo_sort demo_item_query demo_catalog
      = (\<lparr>res_status = 200, res_success = True, res_message = None,
          res_data =
            ItemPage
              (map (\<lambda>n. \<lparr>view_item = demo_item (100 + n) (show_nat n) 1 Active,
                          view_category = Some (1, ''1'', ''1''), view_createdBy = None\<rparr>)
                 [15, 14, 13, 12, 11, 10, 9, 8, 7, 6])
              \<lparr>pg_current = 2, pg_pages = Some 3, pg_total = 25, pg_limit = 10,
               hasNext = True, hasPrev = True\<rparr>,
          res_cookie = None\<rparr>, demo_catalog)
    \<and> take 10 (drop 10 (rev (items demo_catalog))) ! 0 = rev (items demo_catalog) ! 10
    \<and> map item_id (take 10 (drop 10 (rev (items demo_catalog))))
        = [115, 114, 113, 112, 111, 110, 109, 108, 107, 106]"
proof -
  have fc: "filter (category_filter (\<lambda>s c. True) demo_category_query) (categories demo_catalog)
      = categories demo_catalog"
    by (simp add: category_filter_def demo_category_query_def)
  have fi: "filter (item_filter (\<lambda>s i. True) demo_item_query) (items demo_catalog)
      = items demo_catalog"
    by (simp add: item_filter_def demo_item_query_def)
  have hc: "(\<forall>f asc xs. length (demo_sort f asc (xs :: category list)) = length xs)
     \<and> cq_page demo_category_query = Some 2 \<and> cq_limit demo_category_query = Some 10
     \<and> length (filter (category_filter (\<lambda>s c. True) demo_category_query)
          (categories demo_catalog)) = 25
     \<and> rev (categories demo_catalog) =
           demo_sort (case cq_sort demo_category_query of None \<Rightarrow> ''createdAt'' | Some s \<Rightarrow> s)
             ((case cq_order demo_category_query of None \<Rightarrow> ''desc'' | Some s \<Rightarrow> s) = ''asc'')
             (filter (category_filter (\<lambda>s c. True) demo_category_query)
                (categories demo_catalog))"
    unfolding fc by (simp add: demo_sort_def demo_category_query_def demo_catalog_def)
  have hi: "(\<forall>f asc xs. length (demo_sort f asc (xs :: item list)) = length xs)
     \<and> iq_page demo_item_query = Some 2 \<and> iq_limit demo_item_query = Some 10
     \<and> length (filter (item_filter (\<lambda>s i. True) demo_item_query) (items demo_catalog)) = 25
     \<and> rev (items demo_catalog) =
           demo_sort (case iq_sort demo_item_query of None \<Rightarrow> ''createdAt'' | Some s \<Rightarrow> s)
             ((case iq_order demo_item_query of None \<Rightarrow> ''desc'' | Some s \<Rightarrow> s) = ''asc'')
             (filter (item_filter (\<lambda>s i. True) demo_item_query) (items demo_catalog))"
    unfolding fi by (simp add: demo_sort_def demo_item_query_def demo_catalog_def)
  note t = second_page_of_twenty_five
    [where sortCategories = demo_sort and sortItems = demo_sort and v = Relaxed
       and searchCategories = "\<lambda>s c. True" and searchItems = "\<lambda>s i. True"
       and cq = demo_category_query and iq = demo_item_query
       and wc = demo_catalog and wi = demo_catalog
       and sortedCategories = "rev (categories demo_catalog)"
       and sortedItems = "rev (items demo_catalog)"]
  from t hc have a: "getCategories (\<lambda>s c. True) demo_sort demo_category_query demo_catalog
          = (\<lparr>res_status = 200, res_success = True, res_message = None,
              res_data =
                CategoryPage (take 10 (drop 10 (rev (categories demo_catalog))))
                  \<lparr>pg_current = 2, pg_pages = Some 3, pg_total = 25, pg_limit = 10,
                   hasNext = True, hasPrev = True\<rparr>,
              res_cookie = None\<rparr>, demo_catalog)"
    by blast
  from t hi have b: "getItems Relaxed (\<lambda>s i. True) demo_sort demo_item_query demo_catalog
          = (\<lparr>res_status = 200, res_success = True, res_message = None,
              res_data =
                ItemPage
                  (map (\<lambda>i. \<lparr>view_item = i,
                              view_category =
                                (case find (\<lambda>c. cat_id c = item_category i)
                                        (categories demo_catalog) of
                                   None \<Rightarrow> None
                                 | Some c \<Rightarrow> Some (cat_id c, cat_name c, cat_slug c)),
                              view_createdBy =
                                (case (Relaxed, item_createdBy i) of
                                   (Typed, Some a) \<Rightarrow>
                                     (case find (\<lambda>x. admin_id x = a) (admins demo_catalog) of
                                        None \<Rightarrow> None
                                      | Some x \<Rightarrow> Some (admin_username x))
                                 | _ \<Rightarrow> None)\<rparr>)
                     (take 10 (drop 10 (rev (items demo_catalog)))))
                  \<lparr>pg_current = 2, pg_pages = Some 3, pg_total = 25, pg_limit = 10,
                   hasNext = True, hasPrev = True\<rparr>,
              res_cookie = None\<rparr>, demo_catalog)"
    by blast
  from t hi have "\<forall>k < 10. take 10 (drop 10 (rev (items demo_catalog))) ! k
      = rev (items demo_catalog) ! (10 + k)"
    by blast
  then have c: "take 10 (drop 10 (rev (items demo_catalog))) ! 0 = rev (items demo_catalog) ! 10"
    by simp
  have pc: "take 10 (drop 10 (rev (categories demo_catalog)))
      = map (\<lambda>n. demo_category n (show_nat n) 0) [15, 14, 13, 12, 11, 10, 9, 8, 7, 6]"
    by code_simp
  have pi: "take 10 (drop 10 (rev (items demo_catalog)))
      = map (\<lambda>n. demo_item (100 + n) (show_nat n) 1 Active) [15, 14, 13, 12, 11, 10, 9, 8, 7, 6]"
    by code_simp
  have first: "(case find (\<lambda>c. cat_id c = Suc 0) (categories demo_catalog) of
                  None \<Rightarrow> None
                | Some c \<Rightarrow> Some (cat_id c, cat_name c, cat_slug c))
      = Some (Suc 0, ''1'', ''1'')"
    by code_simp
  have d: "map item_id (take 10 (drop 10 (rev (items demo_catalog))))
        = [115, 114, 113, 112, 111, 110, 109, 108, 107, 106]"
    unfolding pi by (simp add: demo_item_def)
  from a have a': "getCategories (\<lambda>s c. True) demo_sort demo_category_query demo_catalog
      = (\<lparr>res_status = 200, res_success = True, res_message = None,
          res_data =
            CategoryPage
              (map (\<lambda>n. demo_category n (show_nat n) 0) [15, 14, 13, 12, 11, 10, 9, 8, 7, 6])
              \<lparr>pg_current = 2, pg_pages = Some 3, pg_total = 25, pg_limit = 10,
               hasNext = True, hasPrev = True\<rparr>,
          res_cookie = None\<rparr>, demo_catalog)"
    by (simp only: pc)
  from b have b': "getItems Relaxed (\<lambda>s i. True) demo_sort demo_item_query demo_catalog
      = (\<lparr>res_status = 200, res_success = True, res_message = None,
          res_data =
            ItemPage
              (map (\<lambda>n. \<lparr>view_item = demo_item (100 + n) (show_nat n) 1 Active,
                          view_category = Some (1, ''1'', ''1''), view_createdBy = None\<rparr>)
                 [15, 14, 13, 12, 11, 10, 9, 8, 7, 6])
              \<lparr>pg_current = 2, pg_pages = Some 3, pg_total = 25, pg_limit = 10,
               hasNext = True, hasPrev = True\<rparr>,
          res_cookie = None\<rparr>, demo_catalog)"
    unfolding pi by (simp add: demo_item_def first)
  from a' b' c d show ?thesis by (intro conjI)
qed

section \<open>Recount failures and the triggering requests\<close>

lemma find_update_first_view:
  assumes "\<And>x. Q (f x) = Q x" and "\<And>x. g (f x) = g x"
  shows "map_option g (find Q (update_first P f xs)) = map_option g (find Q xs)"
  by (induction xs) (auto simp: assms)

lemma category_ref_recount:
  "map_option (\<lambda>c. (cat_id c, cat_name c, cat_slug c))
       (Category_findById x (updateCategoryItemCount f cid w))
     = map_option (\<lambda>c. (cat_id c, cat_name c, cat_slug c)) (Category_findById x w)"
proof (cases "f = NoFault")
  case True
  have "map_option (\<lambda>c. (cat_id c, cat_name c, cat_slug c))
          (find (\<lambda>c. cat_id c = x)
             (update_first (\<lambda>c. cat_id c = cid)
                (\<lambda>c. c\<lparr>itemCount :=
                   length (filter (\<lambda>i. item_category i = cid \<and> item_status i = Active)
                     (items w))\<rparr>)
                (categories w)))
      = map_option (\<lambda>c. (cat_id c, cat_name c, cat_slug c))
          (find (\<lambda>c. cat_id c = x) (categories w))"
    by (rule find_update_first_view) simp_all
  with True show ?thesis
    by (simp add: Category_findById_def categories_recount)
next
  case False
  then show ?thesis
    by (cases f) (simp_all add: updateCategoryItemCount_def Category_findById_def logged_def Let_def)
qed

lemma populate_recount [simp]:
  "populate v (updateCategoryItemCount f cid w) i = populate v w i"
  by (simp add: populate_def category_ref_recount split: variant.splits option.splits)

lemma items_recount_after_update [simp]:
  "items (recount_after_update rf category oldCategory w) = items w"
  by (simp add: recount_after_update_def split: option.splits)

lemma items_fold_recount [simp]:
  "items (fold (\<lambda>c. updateCategoryItemCount (rf c) c) cs w) = items w"
  by (induction cs arbitrary: w) simp_all

lemma same_outcome_refl: "same_outcome a a"
  by (simp add: same_outcome_def)

lemma same_outcome_option:
  "same_outcome a b \<Longrightarrow> (\<And>x. same_outcome (f x) (g x)) \<Longrightarrow>
     same_outcome (case opt of None \<Rightarrow> a | Some x \<Rightarrow> f x) (case opt of None \<Rightarrow> b | Some x \<Rightarrow> g x)"
  by (cases opt) simp_all

lemma same_outcome_sum:
  "(\<And>e. same_outcome (a e) (b e)) \<Longrightarrow> (\<And>x. same_outcome (f x) (g x)) \<Longrightarrow>
     same_outcome (case s of Inl e \<Rightarrow> a e | Inr x \<Rightarrow> f x) (case s of Inl e \<Rightarrow> b e | Inr x \<Rightarrow> g x)"
  by (cases s) simp_all

lemma same_outcome_prod:
  "(\<And>x y. same_outcome (f x y) (g x y)) \<Longrightarrow>
     same_outcome (case p of (x, y) \<Rightarrow> f x y) (case p of (x, y) \<Rightarrow> g x y)"
  by (cases p) simp

lemma same_outcome_if:
  "same_outcome a b \<Longrightarrow> same_outcome c d \<Longrightarrow>
     same_outcome (if P then a else c) (if P then b else d)"
  by simp

lemma same_outcome_let:
  "(\<And>x. same_outcome (f x) (g x)) \<Longrightarrow> same_outcome (Let a f) (Let a g)"
  by simp

lemma same_outcome_verdict:
  "same_outcome a b \<Longrightarrow> same_outcome c d \<Longrightarrow> same_outcome e g \<Longrightarrow>
     same_outcome
       (case x of CharactersPass \<Rightarrow> a | CharacterTooLong \<Rightarrow> c | CharacterThrows \<Rightarrow> e)
       (case x of CharactersPass \<Rightarrow> b | CharacterTooLong \<Rightarrow> d | CharacterThrows \<Rightarrow> g)"
  by (cases x) simp_all

lemmas same_outcome_intros =
  same_outcome_refl same_outcome_option same_outcome_sum same_outcome_prod same_outcome_if
  same_outcome_let same_outcome_verdict

lemma createItem_ts_any_fault:
  "same_outcome (createItem_ts rf admin body w) (createItem_ts (\<lambda>c. NoFault) admin body w)"
  unfolding createItem_ts_def
  by (intro same_outcome_intros) (simp add: same_outcome_def Let_def)

lemma createItem_js_any_fault:
  "same_outcome (createItem_js hf rf body w) (createItem_js hf (\<lambda>c. NoFault) body w)"
  unfolding createItem_js_def
  by (intro same_outcome_intros) (simp add: same_outcome_def Let_def)

lemma updateItem_ts_any_fault:
  "same_outcome (updateItem_ts rf iid body w) (updateItem_ts (\<lambda>c. NoFault) iid body w)"
  unfolding updateItem_ts_def
  by (intro same_outcome_intros) (simp add: same_outcome_def Let_def)

lemma updateItem_js_any_fault:
  "same_outcome (updateItem_js rf iid body w) (updateItem_js (\<lambda>c. NoFault) iid body w)"
  unfolding updateItem_js_def
  by (intro same_outcome_intros) (simp add: same_outcome_def Let_def)

lemma updateItemStatus_any_fault:
  "same_outcome (updateItemStatus v rf iid st w) (updateItemStatus v (\<lambda>c. NoFault) iid st w)"
  unfolding updateItemStatus_def
  by (intro same_outcome_intros) (simp add: same_outcome_def Let_def)

lemma deleteItem_any_fault:
  "same_outcome (deleteItem v hf rf iid w) (deleteItem v hf (\<lambda>c. NoFault) iid w)"
  unfolding deleteItem_def
  by (intro same_outcome_intros) (simp add: same_outcome_def Let_def)

lemma bulkDeleteItems_any_fault:
  "same_outcome (bulkDeleteItems rf ids w) (bulkDeleteItems (\<lambda>c. NoFault) ids w)"
  unfolding bulkDeleteItems_def
  by (intro same_outcome_intros) (simp add: same_outcome_def Let_def)

lemma recount_fault_logged:
  "f \<noteq> NoFault \<Longrightarrow>
     updateCategoryItemCount f cid w = logged ''Update category item count error:'' w"
  by (cases f) (simp_all add: updateCategoryItemCount_def)

text \<open>
  A failure of the post hook of the relaxed model, by contrast, is a failure of the
  store call that ran it.
\<close>

lemma post_hook_fails: "hf \<noteq> NoFault \<Longrightarrow> item_post_hook Relaxed hf category w = Inl StoreError"
  by (cases hf) (simp_all add: item_post_hook_def)

lemma post_hook_items:
  "item_post_hook v NoFault category w = Inr w' \<Longrightarrow> items w' = items w"
  by (cases v)
    (auto simp: item_post_hook_def Category_findByIdAndUpdate_def Let_def split: option.splits)

lemma post_hook_total: "\<exists>w'. item_post_hook v NoFault category w = Inr w'"
  by (cases v) (simp_all add: item_post_hook_def Let_def)

lemma deleteItem_hook_failure:
  assumes "Item_findById iid w = Some i" and "hf \<noteq> NoFault"
  shows "deleteItem Relaxed hf rf iid w
           = (json 500 False ''Internal server error'' NoData,
              logged ''Delete item error:''
                (w\<lparr>items := delete_first (\<lambda>x. item_id x = iid) (items w)\<rparr>))"
    and "fst (deleteItem Relaxed NoFault rf iid w)
           = json 200 True ''Item deleted successfully'' NoData"
    and "items (snd (deleteItem Relaxed NoFault rf iid w))
           = delete_first (\<lambda>x. item_id x = iid) (items w)"
proof -
  let ?w1 = "w\<lparr>items := delete_first (\<lambda>x. item_id x = iid) (items w)\<rparr>"
  show "deleteItem Relaxed hf rf iid w
           = (json 500 False ''Internal server error'' NoData, logged ''Delete item error:'' ?w1)"
    using assms
    by (simp add: deleteItem_def Item_findByIdAndDelete_def Let_def post_hook_fails
        internal_error_def)
  obtain w2 where h: "item_post_hook Relaxed NoFault (item_category i) ?w1 = Inr w2"
    using post_hook_total by blast
  then have "items w2 = items ?w1" by (rule post_hook_items)
  with h assms(1) show "fst (deleteItem Relaxed NoFault rf iid w)
           = json 200 True ''Item deleted successfully'' NoData"
    and "items (snd (deleteItem Relaxed NoFault rf iid w))
           = delete_first (\<lambda>x. item_id x = iid) (items w)"
    by (simp_all add: deleteItem_def Item_findByIdAndDelete_def Let_def)
qed

lemma Item_save_hook_failure:
  assumes "Item_save Relaxed NoFault doc createdBy w = Inr (item, w2)" and "hf \<noteq> NoFault"
  shows "Item_save Relaxed hf doc createdBy w
           = Inl (StoreError, w\<lparr>items := items w @ [item], next_id := next_id w + 1\<rparr>)"
proof (cases "ib_category doc")
  case None
  with assms(1) show ?thesis by (simp add: Item_save_def)
next
  case (Some category)
  let ?built = "new_Item Relaxed doc createdBy category (next_id w)"
  let ?item = "item_pre_save Relaxed ?built"
  from assms(1) Some have valid: "item_valid Relaxed doc ?built"
    by (auto simp: Item_save_def Let_def split: if_splits)
  from assms(1) Some valid have fresh: "item_slug ?item \<notin> set (map item_slug (items w))"
    by (auto simp: Item_save_def Let_def split: if_splits)
  from assms(1) Some valid fresh have "item = ?item"
    by (auto simp: Item_save_def Let_def split: sum.splits)
  with Some valid fresh assms(2) show ?thesis
    by (simp add: Item_save_def Let_def post_hook_fails)
qed

lemma createItem_js_hook_failure:
  assumes "res_status (fst (createItem_js NoFault rf body w)) = 201" and "hf \<noteq> NoFault"
  shows "fst (createItem_js hf rf body w) = json 500 False ''Internal server error'' NoData
    \<and> length (items (snd (createItem_js hf rf body w))) = Suc (length (items w))"
proof -
  from assms(1) obtain category where c: "ib_category body = Some category"
    by (cases "ib_category body") (simp_all add: createItem_js_def json_def)
  from assms(1) c have p: "characters_check (ib_characters body) = CharactersPass"
    by (cases "characters_check (ib_characters body)")
      (simp_all add: createItem_js_def json_def internal_error_def)
  define itemSlug where "itemSlug =
    (if \<not> truthy (ib_slug body) \<and> truthy (ib_title body)
     then map_option slugify (ib_title body) else ib_slug body)"
  from assms(1) c p have t: "truthy itemSlug"
    by (cases "truthy itemSlug") (simp_all add: createItem_js_def json_def Let_def itemSlug_def)
  from assms(1) c p t obtain cat where e: "Category_findById category w = Some cat"
    by (cases "Category_findById category w")
      (simp_all add: createItem_js_def json_def Let_def itemSlug_def)
  define base where "base = (case itemSlug of None \<Rightarrow> [] | Some s \<Rightarrow> s)"
  define doc where "doc =
    body\<lparr>ib_slug := Some (slug_loop (item_slugs w) base base 1),
         ib_characters := Some (case ib_characters body of None \<Rightarrow> [] | Some cs \<Rightarrow> cs),
         ib_status := Some (case ib_status body of None \<Rightarrow> Draft | Some s \<Rightarrow> s)\<rparr>"
  have unfold: "\<And>h. createItem_js h rf body w =
      (case Item_save Relaxed h doc None w of
         Inl (e, w1) \<Rightarrow> internal_error ''Create item error:'' w1
       | Inr (item, w1) \<Rightarrow>
           (let w2 = updateCategoryItemCount (rf category) category w1
            in (json 201 True ''Item created successfully''
                  (ItemData (populate Relaxed w2 item)), w2)))"
    using c p t e
    by (simp add: createItem_js_def Let_def itemSlug_def [symmetric] base_def [symmetric]
        doc_def [symmetric] del: One_nat_def)
  from assms(1) obtain item w2 where s: "Item_save Relaxed NoFault doc None w = Inr (item, w2)"
    by (cases "Item_save Relaxed NoFault doc None w")
      (auto simp: unfold internal_error_def json_def)
  from Item_save_hook_failure [OF s assms(2)] show ?thesis
    by (simp add: unfold internal_error_def logged_def)
qed

text \<open>
  Claim C4 asks that a recount failure never change the response of the request that
  triggered it. For a failure inside the counter maintainer this holds: the call returns
  with only a log line added, and for item create, update, status change, delete and
  bulk delete, of either variant, the response and the items are the same whatever
  failures the maintainer's calls meet. The relaxed item model runs the same count and
  write a second time, in its post hooks, with no catch block: when that count or write
  fails, the relaxed delete and create answer 500 where they answer 200 and 201
  otherwise, although the item has been deleted or stored.
\<close>

theorem recount_failures_and_responses:
  "(f \<noteq> NoFault \<longrightarrow>
      updateCategoryItemCount f cid w = logged ''Update category item count error:'' w)
   \<and> same_outcome (createItem_ts rf admin body w) (createItem_ts (\<lambda>c. NoFault) admin body w)
   \<and> same_outcome (createItem_js hf rf body w) (createItem_js hf (\<lambda>c. NoFault) body w)
   \<and> same_outcome (updateItem_ts rf iid body w) (updateItem_ts (\<lambda>c. NoFault) iid body w)
   \<and> same_outcome (updateItem_js rf iid body w) (updateItem_js (\<lambda>c. NoFault) iid body w)
   \<and> same_outcome (updateItemStatus v rf iid st w) (updateItemStatus v (\<lambda>c. NoFault) iid st w)
   \<and> same_outcome (deleteItem v hf rf iid w) (deleteItem v hf (\<lambda>c. NoFault) iid w)
   \<and> same_outcome (bulkDeleteItems rf ids w) (bulkDeleteItems (\<lambda>c. NoFault) ids w)
   \<and> (Item_findById iid w = Some i \<and> hf \<noteq> NoFault \<longrightarrow>
        fst (deleteItem Relaxed hf rf iid w) = json 500 False ''Internal server error'' NoData
        \<and> items (snd (deleteItem Relaxed hf rf iid w))
            = delete_first (\<lambda>x. item_id x = iid) (items w)
        \<and> fst (deleteItem Relaxed NoFault rf iid w)
            = json 200 True ''Item deleted successfully'' NoData
        \<and> items (snd (deleteItem Relaxed NoFault rf iid w))
            = delete_first (\<lambda>x. item_id x = iid) (items w))
   \<and> (res_status (fst (createItem_js NoFault rf body w)) = 201 \<and> hf \<noteq> NoFault \<longrightarrow>
        fst (createItem_js hf rf body w) = json 500 False ''Internal server error'' NoData
        \<and> length (items (snd (createItem_js hf rf body w))) = Suc (length (items w)))"
proof (intro conjI impI)
  assume "f \<noteq> NoFault"
  then show "updateCategoryItemCount f cid w = logged ''Update category item count error:'' w"
    by (rule recount_fault_logged)
next
  assume a: "Item_findById iid w = Some i \<and> hf \<noteq> NoFault"
  then have i: "Item_findById iid w = Some i" and h: "hf \<noteq> NoFault" by simp_all
  from deleteItem_hook_failure(1) [OF i h, of rf]
  show "fst (deleteItem Relaxed hf rf iid w) = json 500 False ''Internal server error'' NoData"
    and "items (snd (deleteItem Relaxed hf rf iid w))
            = delete_first (\<lambda>x. item_id x = iid) (items w)"
    by (simp_all add: logged_def)
  from deleteItem_hook_failure(2) [OF i h]
  show "fst (deleteItem Relaxed NoFault rf iid w)
            = json 200 True ''Item deleted successfully'' NoData" .
  from deleteItem_hook_failure(3) [OF i h]
  show "items (snd (deleteItem Relaxed NoFault rf iid w))
            = delete_first (\<lambda>x. item_id x = iid) (items w)" .
next
  assume a: "res_status (fst (createItem_js NoFault rf body w)) = 201 \<and> hf \<noteq> NoFault"
  then have s: "res_status (fst (createItem_js NoFault rf body w)) = 201"
    and h: "hf \<noteq> NoFault" by simp_all
  from createItem_js_hook_failure [OF s h]
  show "fst (createItem_js hf rf body w) = json 500 False ''Internal server error'' NoData"
    and "length (items (snd (createItem_js hf rf body w))) = Suc (length (items w))"
    by simp_all
qed (rule createItem_ts_any_fault createItem_js_any_fault updateItem_ts_any_fault
    updateItem_js_any_fault updateItemStatus_any_fault deleteItem_any_fault
    bulkDeleteItems_any_fault)+

text \<open>
  On the small store: a failing recount is logged; deleting item 11 under a recount
  whose write fails is answered 200; the same delete and a create under \<open>movies\<close> are
  answered 500 when the count inside the model's hook fails, with item 11 gone and the
  new item stored.
\<close>

theorem recount_failures_demo:
  "updateCategoryItemCount CountFails 1 demo_world
     = logged ''Update category item count error:'' demo_world
   \<and> fst (deleteItem Relaxed NoFault (\<lambda>c. UpdateFails) 11 demo_world)
       = json 200 True ''Item deleted successfully'' NoData
   \<and> fst (deleteItem Relaxed CountFails (\<lambda>c. UpdateFails) 11 demo_world)
       = json 500 False ''Internal server error'' NoData
   \<and> map item_id (items (snd (deleteItem Relaxed CountFails (\<lambda>c. UpdateFails) 11 demo_world)))
       = [12, 13, 14]
   \<and> res_status (fst (createItem_js NoFault (\<lambda>c. UpdateFails) demo_create_body demo_world)) = 201
   \<and> fst (createItem_js CountFails (\<lambda>c. UpdateFails) demo_create_body demo_world)
       = json 500 False ''Internal server error'' NoData
   \<and> length (items (snd (createItem_js CountFails (\<lambda>c. UpdateFails) demo_create_body
                            demo_world))) = 5"
proof -
  note t = recount_failures_and_responses
    [where f = CountFails and cid = 1 and w = demo_world and rf = "\<lambda>c. UpdateFails"
       and hf = CountFails and iid = 11 and i = "demo_item 11 ''alien'' 1 Active"
       and body = demo_create_body and admin = None and v = Relaxed and st = "Some Active"
       and ids = None]
  have ne: "CountFails \<noteq> NoFault" by simp
  from t have "CountFails \<noteq> NoFault \<longrightarrow> updateCategoryItemCount CountFails 1 demo_world
     = logged ''Update category item count error:'' demo_world"
    by (elim conjE)
  from this ne have a: "updateCategoryItemCount CountFails 1 demo_world
     = logged ''Update category item count error:'' demo_world"
    by (rule mp)
  have found: "Item_findById 11 demo_world = Some (demo_item 11 ''alien'' 1 Active)
      \<and> CountFails \<noteq> NoFault"
    by (simp add: Item_findById_def demo_world_def demo_item_def)
  from t have "Item_findById 11 demo_world = Some (demo_item 11 ''alien'' 1 Active)
      \<and> CountFails \<noteq> NoFault \<longrightarrow>
        fst (deleteItem Relaxed CountFails (\<lambda>c. UpdateFails) 11 demo_world)
          = json 500 False ''Internal server error'' NoData
        \<and> items (snd (deleteItem Relaxed CountFails (\<lambda>c. UpdateFails) 11 demo_world))
            = delete_first (\<lambda>x. item_id x = 11) (items demo_world)
        \<and> fst (deleteItem Relaxed NoFault (\<lambda>c. UpdateFails) 11 demo_world)
            = json 200 True ''Item deleted successfully'' NoData
        \<and> items (snd (deleteItem Relaxed NoFault (\<lambda>c. UpdateFails) 11 demo_world))
            = delete_first (\<lambda>x. item_id x = 11) (items demo_world)"
    by (elim conjE)
  from this found have d: "fst (deleteItem Relaxed CountFails (\<lambda>c. UpdateFails) 11 demo_world)
          = json 500 False ''Internal server error'' NoData
        \<and> items (snd (deleteItem Relaxed CountFails (\<lambda>c. UpdateFails) 11 demo_world))
            = delete_first (\<lambda>x. item_id x = 11) (items demo_world)
        \<and> fst (deleteItem Relaxed NoFault (\<lambda>c. UpdateFails) 11 demo_world)
            = json 200 True ''Item deleted successfully'' NoData
        \<and> items (snd (deleteItem Relaxed NoFault (\<lambda>c. UpdateFails) 11 demo_world))
            = delete_first (\<lambda>x. item_id x = 11) (items demo_world)"
    by (rule mp)
  have rest: "map item_id (delete_first (\<lambda>x. item_id x = 11) (items demo_world)) = [12, 13, 14]"
    by (simp add: demo_world_def demo_item_def)
  have created: "res_status (fst (createItem_js NoFault (\<lambda>c. UpdateFails) demo_create_body
                                   demo_world)) = 201"
    by code_simp
  from t have "res_status (fst (createItem_js NoFault (\<lambda>c. UpdateFails) demo_create_body
                                   demo_world)) = 201 \<and> CountFails \<noteq> NoFault \<longrightarrow>
        fst (createItem_js CountFails (\<lambda>c. UpdateFails) demo_create_body demo_world)
          = json 500 False ''Internal server error'' NoData
        \<and> length (items (snd (createItem_js CountFails (\<lambda>c. UpdateFails) demo_create_body
                                 demo_world))) = Suc (length (items demo_world))"
    by (elim conjE)
  from this created ne have c: "fst (createItem_js CountFails (\<lambda>c. UpdateFails) demo_create_body demo_world)
          = json 500 False ''Internal server error'' NoData
        \<and> length (items (snd (createItem_js CountFails (\<lambda>c. UpdateFails) demo_create_body
                                 demo_world))) = Suc (length (items demo_world))"
    by simp
  have n: "Suc (length (items demo_world)) = 5" by (simp add: demo_world_def)
  from a d rest created c n show ?thesis by simp
qed

section \<open>Creating an item under a category that does not exist\<close>

text \<open>
  Claim C3, as the code has it. A create request whose category identifies no existing
  category is answered 400 and leaves the store as it was, items included. The typed
  handler answers \<open>Category not found\<close>. The relaxed handler looks the category up only
  after its own checks, and its message is the one of the first check that fails:
  \<open>Category is required.\<close> when no category is given; else \<open>Character description
  must be 300 characters or less.\<close> when the loop over the characters finds such a
  description; else \<open>Title is required to generate slug\<close> when no slug is given and the
  title yields none; else \<open>Category not found\<close>. A request whose loop over the
  characters throws is not covered.
\<close>

theorem createItem_unknown_category:
  assumes "(case ib_category body of None \<Rightarrow> None | Some c \<Rightarrow> Category_findById c w) = None"
  shows "createItem_ts rf admin body w = (json 400 False ''Category not found'' NoData, w)
    \<and> (ib_category body = None \<longrightarrow>
         createItem_js hf rf body w = (json 400 False ''Category is required.'' NoData, w))
    \<and> (ib_category body \<noteq> None
         \<and> characters_check (ib_characters body) = CharacterTooLong \<longrightarrow>
         createItem_js hf rf body w
           = (json 400 False ''Character description must be 300 characters or less.'' NoData,
              w))
    \<and> (ib_category body \<noteq> None
         \<and> characters_check (ib_characters body) = CharactersPass
         \<and> \<not> truthy (if \<not> truthy (ib_slug body) \<and> truthy (ib_title body)
                      then map_option slugify (ib_title body) else ib_slug body) \<longrightarrow>
         createItem_js hf rf body w
           = (json 400 False ''Title is required to generate slug'' NoData, w))
    \<and> (ib_category body \<noteq> None
         \<and> characters_check (ib_characters body) = CharactersPass
         \<and> truthy (if \<not> truthy (ib_slug body) \<and> truthy (ib_title body)
                    then map_option slugify (ib_title body) else ib_slug body) \<longrightarrow>
         createItem_js hf rf body w = (json 400 False ''Category not found'' NoData, w))"
proof (intro conjI impI)
  show "createItem_ts rf admin body w = (json 400 False ''Category not found'' NoData, w)"
    using assms by (simp add: createItem_ts_def)
next
  assume "ib_category body = None"
  then show "createItem_js hf rf body w = (json 400 False ''Category is required.'' NoData, w)"
    by (simp add: createItem_js_def)
next
  assume "ib_category body \<noteq> None
         \<and> characters_check (ib_characters body) = CharacterTooLong"
  then show "createItem_js hf rf body w
           = (json 400 False ''Character description must be 300 characters or less.'' NoData,
              w)"
    by (cases "ib_category body") (simp_all add: createItem_js_def)
next
  assume "ib_category body \<noteq> None
         \<and> characters_check (ib_characters body) = CharactersPass
         \<and> \<not> truthy (if \<not> truthy (ib_slug body) \<and> truthy (ib_title body)
                      then map_option slugify (ib_title body) else ib_slug body)"
  then show "createItem_js hf rf body w
           = (json 400 False ''Title is required to generate slug'' NoData, w)"
    by (cases "ib_category body") (simp_all add: createItem_js_def Let_def)
next
  assume "ib_category body \<noteq> None
         \<and> characters_check (ib_characters body) = CharactersPass
         \<and> truthy (if \<not> truthy (ib_slug body) \<and> truthy (ib_title body)
                    then map_option slugify (ib_title body) else ib_slug body)"
  then show "createItem_js hf rf body w = (json 400 False ''Category not found'' NoData, w)"
    using assms by (cases "ib_category body") (simp_all add: createItem_js_def Let_def)
qed

text \<open>
  On the small store, where no category has the identifier 9: the typed handler answers
  \<open>Category not found\<close>, and the relaxed handler answers each of its four messages to
  the request that fails the matching check first; nothing is stored.
\<close>

theorem createItem_unknown_category_demo:
  "createItem_ts (\<lambda>c. NoFault) (Some 1) demo_item_body demo_world
     = (json 400 False ''Category not found'' NoData, demo_world)
   \<and> createItem_js NoFault (\<lambda>c. NoFault) demo_item_body demo_world
     = (json 400 False ''Category not found'' NoData, demo_world)
   \<and> createItem_js NoFault (\<lambda>c. NoFault) demo_untitled_body demo_world
     = (json 400 False ''Title is required to generate slug'' NoData, demo_world)
   \<and> createItem_js NoFault (\<lambda>c. NoFault) demo_long_character_body demo_world
     = (json 400 False ''Character description must be 300 characters or less.'' NoData,
        demo_world)
   \<and> createItem_js NoFault (\<lambda>c. NoFault) demo_uncategorised_body demo_world
     = (json 400 False ''Category is required.'' NoData, demo_world)"
proof -
  have none: "Category_findById 9 demo_world = None"
    by (simp add: Category_findById_def demo_world_def demo_category_def)
  have h1: "(case ib_category demo_item_body of None \<Rightarrow> None
            | Some c \<Rightarrow> Category_findById c demo_world) = None"
    by (simp add: demo_item_body_def empty_item_body_def none)
  have h2: "(case ib_category demo_untitled_body of None \<Rightarrow> None
            | Some c \<Rightarrow> Category_findById c demo_world) = None"
    by (simp add: demo_untitled_body_def demo_item_body_def empty_item_body_def none)
  have h3: "(case ib_category demo_long_character_body of None \<Rightarrow> None
            | Some c \<Rightarrow> Category_findById c demo_world) = None"
    by (simp add: demo_long_character_body_def demo_item_body_def empty_item_body_def none)
  have h4: "(case ib_category demo_uncategorised_body of None \<Rightarrow> None
            | Some c \<Rightarrow> Category_findById c demo_world) = None"
    by (simp add: demo_uncategorised_body_def demo_item_body_def empty_item_body_def)
  have s1: "slugify ''Alien'' = ''alien''" by code_simp
  have s2: "slugify ''!!!'' = []" by code_simp
  have g1: "ib_category demo_item_body \<noteq> None
      \<and> characters_check (ib_characters demo_item_body) = CharactersPass
      \<and> truthy (if \<not> truthy (ib_slug demo_item_body) \<and> truthy (ib_title demo_item_body)
                then map_option slugify (ib_title demo_item_body) else ib_slug demo_item_body)"
    by (simp add: demo_item_body_def empty_item_body_def characters_check_def truthy_def s1)
  have g2: "ib_category demo_untitled_body \<noteq> None
      \<and> characters_check (ib_characters demo_untitled_body) = CharactersPass
      \<and> \<not> truthy (if \<not> truthy (ib_slug demo_untitled_body)
                       \<and> truthy (ib_title demo_untitled_body)
                    then map_option slugify (ib_title demo_untitled_body)
                    else ib_slug demo_untitled_body)"
    by (simp add: demo_untitled_body_def demo_item_body_def empty_item_body_def
        characters_check_def truthy_def s2)
  have g3: "ib_category demo_long_character_body \<noteq> None
      \<and> characters_check (ib_characters demo_long_character_body) = CharacterTooLong"
    by (simp add: demo_long_character_body_def demo_item_body_def empty_item_body_def
        characters_check_def)
  have g4: "ib_category demo_uncategorised_body = None"
    by (simp add: demo_uncategorised_body_def)
  note t1 = createItem_unknown_category [OF h1, of "\<lambda>c. NoFault" "Some 1" NoFault]
  note t2 = createItem_unknown_category [OF h2, of "\<lambda>c. NoFault" "Some 1" NoFault]
  note t3 = createItem_unknown_category [OF h3, of "\<lambda>c. NoFault" "Some 1" NoFault]
  note t4 = createItem_unknown_category [OF h4, of "\<lambda>c. NoFault" "Some 1" NoFault]
  from t1 have a: "createItem_ts (\<lambda>c. NoFault) (Some 1) demo_item_body demo_world
     = (json 400 False ''Category not found'' NoData, demo_world)"
    by (elim conjE)
  from t1 g1 have b: "createItem_js NoFault (\<lambda>c. NoFault) demo_item_body demo_world
     = (json 400 False ''Category not found'' NoData, demo_world)"
    by blast
  from t2 g2 have c: "createItem_js NoFault (\<lambda>c. NoFault) demo_untitled_body demo_world
     = (json 400 False ''Title is required to generate slug'' NoData, demo_world)"
    by blast
  from t3 g3 have d: "createItem_js NoFault (\<lambda>c. NoFault) demo_long_character_body demo_world
     = (json 400 False ''Character description must be 300 characters or less.'' NoData,
        demo_world)"
    by blast
  from t4 g4 have e: "createItem_js NoFault (\<lambda>c. NoFault) demo_uncategorised_body demo_world
     = (json 400 False ''Category is required.'' NoData, demo_world)"
    by blast
  from a b c d e show ?thesis by (intro conjI)
qed

text \<open>
  The claim as stated names the message \<open>Category not found\<close> for every such request.
  The relaxed handler, asked to create an item without a title or slug under the unknown
  category 9, answers with the message of its slug check instead.
\<close>

theorem createItem_js_slug_check_first:
  "Category_findById 9 demo_world = None
   \<and> createItem_js NoFault (\<lambda>c. NoFault) (empty_item_body\<lparr>ib_category := Some 9\<rparr>) demo_world
     = (json 400 False ''Title is required to generate slug'' NoData, demo_world)
   \<and> res_message
       (fst (createItem_js NoFault (\<lambda>c. NoFault) (empty_item_body\<lparr>ib_category := Some 9\<rparr>)
               demo_world))
     \<noteq> Some ''Category not found''"
  by (simp add: createItem_js_def empty_item_body_def characters_check_def truthy_def
      Category_findById_def demo_world_def demo_category_def json_def)

end
